theory Spec2Isabelle
  imports Main
begin

section \<open>JavaScript values\<close>

text \<open>
  The node passes loosely typed values around (\<^verbatim>\<open>any\<close>, \<^verbatim>\<open>IDataObject\<close>). They are
  modelled by one datatype. A string is a list of code units; the development only looks
  at code units below 256, which is what \<^typ>\<open>char\<close> holds. Numbers are the integers that
  a JavaScript number holds exactly (magnitude below \<open>2 ^ 53\<close>), on which arithmetic is exact
  and which are printed in digits. An object is the list of its own enumerable properties in
  insertion order. \<open>JError m\<close> is an instance of \<^verbatim>\<open>Error\<close> whose \<^verbatim>\<open>message\<close> is \<open>m\<close>: it has
  no own enumerable property. These are the values that parameters, parsed JSON and backend
  answers are made of; functions, symbols, objects with a \<^verbatim>\<open>toJSON\<close> method and cyclic
  objects are not among them, and nothing is stated about them.
\<close>

datatype jsval =
    JUndefined
  | JNull
  | JBool bool
  | JNum int
  | JStr string
  | JArr "jsval list"
  | JObj "(string \<times> jsval) list"
  | JError string

text \<open>Truthiness, as \<^verbatim>\<open>if (v)\<close>, \<^verbatim>\<open>!v\<close> and \<^verbatim>\<open>v || d\<close> read it.\<close>

fun truthy :: "jsval \<Rightarrow> bool" where
  "truthy JUndefined = False"
| "truthy JNull = False"
| "truthy (JBool b) = b"
| "truthy (JNum n) = (n \<noteq> 0)"
| "truthy (JStr s) = (s \<noteq> [])"
| "truthy (JArr _) = True"
| "truthy (JObj _) = True"
| "truthy (JError _) = True"

text \<open>\<^verbatim>\<open>a || b\<close>\<close>

definition js_or :: "jsval \<Rightarrow> jsval \<Rightarrow> jsval" where
  "js_or a b = (if truthy a then a else b)"

text \<open>
  Property read \<^verbatim>\<open>v.k\<close> on a value that is neither null nor undefined. An own property
  wins; an \<^verbatim>\<open>Error\<close> answers \<^verbatim>\<open>message\<close>; anything else is undefined.
\<close>

fun get_prop :: "jsval \<Rightarrow> string \<Rightarrow> jsval" where
  "get_prop (JObj kvs) k = (case map_of kvs k of Some v \<Rightarrow> v | None \<Rightarrow> JUndefined)"
| "get_prop (JError m) k = (if k = ''message'' then JStr m else JUndefined)"
| "get_prop _ k = JUndefined"

section \<open>Regular expressions\<close>

text \<open>
  The validators test their argument against the literal
  \<^verbatim>\<open>/^[a-zA-Z][a-zA-Z0-9_]*$/\<close>. The pattern is kept as data; \<open>regex_test\<close> is
  \<^verbatim>\<open>RegExp.prototype.test\<close> for a pattern anchored at both ends (without the \<^verbatim>\<open>m\<close> flag
  \<^verbatim>\<open>$\<close> only matches at the end of the input), computed by derivatives.
\<close>

datatype regex =
    Never
  | Blank
  | Ranges "(char \<times> char) list"
  | Or regex regex
  | Then regex regex
  | Many regex

definition in_ranges :: "char \<Rightarrow> (char \<times> char) list \<Rightarrow> bool" where
  "in_ranges c rs =
     list_ex (\<lambda>(lo, hi). (of_char lo :: nat) \<le> of_char c \<and> (of_char c :: nat) \<le> of_char hi) rs"

fun accepts_empty :: "regex \<Rightarrow> bool" where
  "accepts_empty Never = False"
| "accepts_empty Blank = True"
| "accepts_empty (Ranges rs) = False"
| "accepts_empty (Or a b) = (accepts_empty a \<or> accepts_empty b)"
| "accepts_empty (Then a b) = (accepts_empty a \<and> accepts_empty b)"
| "accepts_empty (Many a) = True"

fun deriv :: "char \<Rightarrow> regex \<Rightarrow> regex" where
  "deriv c Never = Never"
| "deriv c Blank = Never"
| "deriv c (Ranges rs) = (if in_ranges c rs then Blank else Never)"
| "deriv c (Or a b) = Or (deriv c a) (deriv c b)"
| "deriv c (Then a b) =
     (if accepts_empty a then Or (Then (deriv c a) b) (deriv c b) else Then (deriv c a) b)"
| "deriv c (Many a) = Then (deriv c a) (Many a)"

definition regex_test :: "regex \<Rightarrow> string \<Rightarrow> bool" where
  "regex_test r s = accepts_empty (fold deriv s r)"

text \<open>The strings a pattern denotes, to say what \<open>regex_test\<close> decides.\<close>

definition repeat :: "string set \<Rightarrow> string set" where
  "repeat L = {concat ws | ws. set ws \<subseteq> L}"

fun lang :: "regex \<Rightarrow> string set" where
  "lang Never = {}"
| "lang Blank = {[]}"
| "lang (Ranges rs) = {[c] | c. in_ranges c rs}"
| "lang (Or a b) = lang a \<union> lang b"
| "lang (Then a b) = {u @ v | u v. u \<in> lang a \<and> v \<in> lang b}"
| "lang (Many a) = repeat (lang a)"

text \<open>\<^verbatim>\<open>/^[a-zA-Z][a-zA-Z0-9_]*$/\<close>\<close>

definition identifier_regex :: regex where
  "identifier_regex =
     Then (Ranges [(CHR ''a'', CHR ''z''), (CHR ''A'', CHR ''Z'')])
          (Many (Ranges [(CHR ''a'', CHR ''z''), (CHR ''A'', CHR ''Z''),
                         (CHR ''0'', CHR ''9''), (CHR ''_'', CHR ''_'')]))"

section \<open>Validators (utils/supabaseClient.ts)\<close>

text \<open>
  A \<^verbatim>\<open>throw\<close> is the left summand of the result, carrying the thrown value;
  \<^verbatim>\<open>new Error(m)\<close> is \<open>JError m\<close>. The repository has no error class of its own: what
  the specification calls a ValidationError is an \<^verbatim>\<open>Error\<close> thrown by a check that
  runs before any request is sent.
\<close>

definition validateTableName :: "string \<Rightarrow> jsval + unit" where
  "validateTableName tableName =
     (if tableName = [] then Inl (JError ''Table name is required'')
      else if \<not> regex_test identifier_regex tableName then
        Inl (JError ''Table name must start with a letter and contain only letters, numbers, and underscores'')
      else if length tableName > 63 then
        Inl (JError ''Table name must be 63 characters or less'')
      else Inr ())"

definition validateColumnName :: "string \<Rightarrow> jsval + unit" where
  "validateColumnName columnName =
     (if columnName = [] then Inl (JError ''Column name is required'')
      else if \<not> regex_test identifier_regex columnName then
        Inl (JError ''Column name must start with a letter and contain only letters, numbers, and underscores'')
      else if length columnName > 63 then
        Inl (JError ''Column name must be 63 characters or less'')
      else Inr ())"

text \<open>
  The identifiers of the specification, in its own words: a letter first, then letters,
  digits and underscores, at most 63 characters in all.
\<close>

definition ascii_letter :: "char \<Rightarrow> bool" where
  "ascii_letter c = (c \<in> set ''abcdefghijklmnopqrstuvwxyzABCDEFGHIJKLMNOPQRSTUVWXYZ'')"

definition word_char :: "char \<Rightarrow> bool" where
  "word_char c = (ascii_letter c \<or> c \<in> set ''0123456789_'')"

fun spec_identifier :: "string \<Rightarrow> bool" where
  "spec_identifier [] = False"
| "spec_identifier (c # cs) = (ascii_letter c \<and> list_all word_char cs \<and> length (c # cs) \<le> 63)"

section \<open>Strings\<close>

text \<open>
  The string methods the node calls, on code units below 256. \<open>js_trim\<close> drops the white
  space and line terminators of that range at both ends (tab, line feed, vertical tab, form
  feed, carriage return, space, no-break space); \<open>js_toLowerCase\<close> maps the upper case
  letters of that range (A to Z, and 0xC0 to 0xDE but for the multiplication sign).
\<close>

definition js_space :: "char \<Rightarrow> bool" where
  "js_space c = ((of_char c :: nat) \<in> {9, 10, 11, 12, 13, 32, 160})"

definition js_trim :: "string \<Rightarrow> string" where
  "js_trim s = rev (dropWhile js_space (rev (dropWhile js_space s)))"

definition js_lower_char :: "char \<Rightarrow> char" where
  "js_lower_char c =
     (let n = (of_char c :: nat) in
      if (65 \<le> n \<and> n \<le> 90) \<or> (192 \<le> n \<and> n \<le> 222 \<and> n \<noteq> 215) then char_of (n + 32) else c)"

definition js_toLowerCase :: "string \<Rightarrow> string" where
  "js_toLowerCase s = map js_lower_char s"

definition js_startsWith :: "string \<Rightarrow> string \<Rightarrow> bool" where
  "js_startsWith s p = (take (length p) s = p)"

definition js_includes :: "string \<Rightarrow> string \<Rightarrow> bool" where
  "js_includes s sub = list_ex (\<lambda>i. take (length sub) (drop i s) = sub) [0 ..< Suc (length s)]"

text \<open>\<^verbatim>\<open>xs.join(sep)\<close> on strings.\<close>

fun js_join :: "string \<Rightarrow> string list \<Rightarrow> string" where
  "js_join sep [] = []"
| "js_join sep [x] = x"
| "js_join sep (x # y # ys) = x @ sep @ js_join sep (y # ys)"

text \<open>Decimal digits of a number, as number-to-string conversion writes an integer.\<close>

fun digits :: "nat \<Rightarrow> string" where
  "digits n = (if n < 10 then [char_of (48 + n)] else digits (n div 10) @ [char_of (48 + n mod 10)])"

declare digits.simps [simp del]

definition show_int :: "int \<Rightarrow> string" where
  "show_int i = (if i < 0 then CHR ''-'' # digits (nat (- i)) else digits (nat i))"

text \<open>
  String conversion, as a template literal and \<^verbatim>\<open>new Error(v)\<close> apply it: an array joins
  its elements with commas (null and undefined as the empty string), a plain object is
  \<^verbatim>\<open>[object Object]\<close>, an \<^verbatim>\<open>Error\<close> is its name and message.
\<close>

fun js_to_string :: "jsval \<Rightarrow> string" where
  "js_to_string JUndefined = ''undefined''"
| "js_to_string JNull = ''null''"
| "js_to_string (JBool b) = (if b then ''true'' else ''false'')"
| "js_to_string (JNum n) = show_int n"
| "js_to_string (JStr s) = s"
| "js_to_string (JArr xs) =
     js_join '','' (map (\<lambda>x. if x = JUndefined \<or> x = JNull then [] else js_to_string x) xs)"
| "js_to_string (JObj kvs) = ''[object Object]''"
| "js_to_string (JError m) = (if m = [] then ''Error'' else ''Error: '' @ m)"

text \<open>\<^verbatim>\<open>new Error(v)\<close>: no message when \<open>v\<close> is undefined, its string conversion otherwise.\<close>

definition new_Error :: "jsval \<Rightarrow> jsval" where
  "new_Error v = JError (if v = JUndefined then [] else js_to_string v)"

section \<open>JSON.stringify\<close>

definition hex_digit :: "nat \<Rightarrow> char" where
  "hex_digit n = ''0123456789abcdef'' ! (n mod 16)"

definition json_escape_char :: "char \<Rightarrow> string" where
  "json_escape_char c =
     (let n = (of_char c :: nat) in
      if c = CHR 0x22 then [CHR 0x5C, CHR 0x22]
      else if c = CHR 0x5C then [CHR 0x5C, CHR 0x5C]
      else if n = 8 then [CHR 0x5C, CHR ''b'']
      else if n = 12 then [CHR 0x5C, CHR ''f'']
      else if n = 10 then [CHR 0x5C, CHR ''n'']
      else if n = 13 then [CHR 0x5C, CHR ''r'']
      else if n = 9 then [CHR 0x5C, CHR ''t'']
      else if n < 32 then [CHR 0x5C, CHR ''u'', CHR ''0'', CHR ''0'', hex_digit (n div 16), hex_digit n]
      else [c])"

definition json_quote :: "string \<Rightarrow> string" where
  "json_quote s = CHR 0x22 # concat (map json_escape_char s) @ [CHR 0x22]"

text \<open>
  The text of a value that has one. In an array undefined is written \<^verbatim>\<open>null\<close>; in an
  object a property whose value is undefined is left out; an \<^verbatim>\<open>Error\<close> has no own
  enumerable property and is written \<^verbatim>\<open>{}\<close>.
\<close>

fun json_text :: "jsval \<Rightarrow> string" where
  "json_text JUndefined = ''null''"
| "json_text JNull = ''null''"
| "json_text (JBool b) = (if b then ''true'' else ''false'')"
| "json_text (JNum n) = show_int n"
| "json_text (JStr s) = json_quote s"
| "json_text (JArr xs) = ''['' @ js_join '','' (map json_text xs) @ '']''"
| "json_text (JObj kvs) =
     ''{'' @ js_join '',''
        (map (\<lambda>(k, v). json_quote k @ '':'' @ json_text v) (filter (\<lambda>(k, v). v \<noteq> JUndefined) kvs))
      @ ''}''"
| "json_text (JError m) = ''{}''"

definition JSON_stringify :: "jsval \<Rightarrow> jsval" where
  "JSON_stringify v = (if v = JUndefined then JUndefined else JStr (json_text v))"

section \<open>Error normalizer and credentials (utils/supabaseClient.ts)\<close>

text \<open>\<^verbatim>\<open>typeof v === 'string'\<close>\<close>

fun is_string :: "jsval \<Rightarrow> bool" where
  "is_string (JStr _) = True"
| "is_string _ = False"

definition formatSupabaseError :: "jsval \<Rightarrow> jsval" where
  "formatSupabaseError error =
     (if \<not> truthy error then JStr ''Unknown error occurred''
      else if is_string error then error
      else if truthy (get_prop error ''message'') then get_prop error ''message''
      else if truthy (get_prop error ''error_description'') then get_prop error ''error_description''
      else if truthy (get_prop error ''details'') then get_prop error ''details''
      else JSON_stringify error)"

record ISupabaseCredentials =
  host :: string
  serviceKey :: string
  schema :: "string option"

text \<open>
  \<^verbatim>\<open>new URL(text)\<close> belongs to the runtime. It is a parameter: a partial map from the text
  to the parsed URL, undefined where the constructor throws.
\<close>

record URL =
  protocol :: string
  url_host :: string

definition validateCredentials :: "(string \<rightharpoonup> URL) \<Rightarrow> ISupabaseCredentials \<Rightarrow> jsval + unit" where
  "validateCredentials new_URL credentials =
     (if host credentials = [] then Inl (JError ''Supabase Project URL is required'')
      else if serviceKey credentials = [] then Inl (JError ''Supabase API Key is required'')
      else if new_URL (host credentials) = None then Inl (JError ''Invalid Supabase Project URL format'')
      else if \<not> js_includes (host credentials) ''supabase.co'' \<and> \<not> js_includes (host credentials) ''localhost''
        then Inl (JError ''URL must be a valid Supabase project URL'')
      else Inr ())"

text \<open>
  The operator table is an object literal, and the lookup is \<^verbatim>\<open>operatorMap[operator] || 'eq'\<close>.
  A name of the table gives its entry. A name that every object inherits from
  \<^verbatim>\<open>Object.prototype\<close> gives the inherited member, which is a function or an object and so
  truthy: the lookup returns it as it is. Any other name is undefined in the table and falls
  back to \<^verbatim>\<open>eq\<close>.
\<close>

datatype filter_operator = Operator string | Inherited string

definition inherited_names :: "string list" where
  "inherited_names =
     [''constructor'', ''__proto__'', ''hasOwnProperty'', ''isPrototypeOf'', ''propertyIsEnumerable'',
      ''toLocaleString'', ''toString'', ''valueOf'', ''__defineGetter__'', ''__defineSetter__'',
      ''__lookupGetter__'', ''__lookupSetter__'']"

definition convertFilterOperator :: "string \<Rightarrow> filter_operator" where
  "convertFilterOperator operator =
     (case map_of [(''eq'', ''eq''), (''neq'', ''neq''), (''gt'', ''gt''), (''gte'', ''gte''), (''lt'', ''lt''),
                   (''lte'', ''lte''), (''like'', ''like''), (''ilike'', ''ilike''), (''is'', ''is''),
                   (''in'', ''in''), (''cs'', ''cs''), (''cd'', ''cd'')] operator of
        Some v \<Rightarrow> Operator v
      | None \<Rightarrow> if operator \<in> set inherited_names then Inherited operator else Operator ''eq'')"

section \<open>Item parameters (types.ts and the node's property list)\<close>

record IRowFilter =
  column :: string
  operator :: string
  filter_value :: jsval

record IRowSort =
  sort_column :: string
  ascending :: bool

record IColumnDefinition =
  name :: string
  col_type :: string
  nullable :: "bool option"
  defaultValue :: "string option"
  primaryKey :: "bool option"
  unique :: "bool option"

record IIndexDefinition =
  index_name :: string
  index_columns :: "string list"
  index_unique :: "bool option"
  index_method :: "string option"

text \<open>
  The resolved parameters of one input item. A parameter the handlers read with a default
  is an option: \<open>None\<close> when the item does not carry it. \<open>columns\<close> is \<^verbatim>\<open>columns.column\<close>
  (name and value pairs), \<open>filters\<close> is \<^verbatim>\<open>filters.filter\<close>, \<open>sortField\<close> is
  \<^verbatim>\<open>sort.sortField\<close>, \<open>columnDefinitions\<close> is \<^verbatim>\<open>columnDefinitions.column\<close>.
\<close>

record parameters =
  resource :: string
  operation :: string
  table :: string
  uiMode :: "string option"
  jsonData :: "string option"
  columns :: "(string \<times> jsval) list option"
  filters :: "IRowFilter list option"
  advancedFilters :: "string option"
  returnFields :: "string option"
  sortField :: "IRowSort list option"
  limit :: "int option"
  offset :: "int option"
  onConflict :: "string option"
  tableName :: string
  columnDefinitions :: "IColumnDefinition list option"
  columnDefinition :: IColumnDefinition
  columnName :: string
  cascade :: "bool option"
  indexDefinition :: IIndexDefinition
  indexName :: string
  customSql :: "string option"

text \<open>\<^verbatim>\<open>this.getNodeParameter(name, itemIndex, fallback)\<close>\<close>

definition getNodeParameter :: "'a option \<Rightarrow> 'a \<Rightarrow> 'a" where
  "getNodeParameter param fallback = (case param of Some v \<Rightarrow> v | None \<Rightarrow> fallback)"

section \<open>The backend client\<close>

text \<open>
  The client is a query builder: each call returns the query with one more clause, and
  nothing is sent before the query is awaited. A request is the query as built, or a
  stored-procedure call with its SQL text. The backend answers a request with
  \<^verbatim>\<open>{data, error, count}\<close>.
\<close>

datatype filter_call = Filter_call string filter_operator jsval | Eq_call string jsval

datatype verb =
    Select_verb string
  | Insert_verb jsval
  | Update_verb jsval
  | Delete_verb
  | Upsert_verb jsval "string option"

record query =
  from_table :: string
  verb :: verb
  filter_calls :: "filter_call list"
  order_calls :: "(string \<times> bool) list"
  limit_call :: "int option"
  range_call :: "(int \<times> int) option"
  returning :: bool

datatype request = Rest query | Rpc string string

record response =
  data :: jsval
  error :: jsval
  count :: jsval

type_synonym SupabaseClient = "request \<Rightarrow> response"

text \<open>\<^verbatim>\<open>supabase.from(t).select(f)\<close>, \<^verbatim>\<open>.insert(d)\<close>, \<^verbatim>\<open>.update(d)\<close>, \<^verbatim>\<open>.delete()\<close>, \<^verbatim>\<open>.upsert(d, o)\<close>\<close>

definition from_table_do :: "string \<Rightarrow> verb \<Rightarrow> query" where
  "from_table_do t v =
     \<lparr>from_table = t, verb = v, filter_calls = [], order_calls = [], limit_call = None,
      range_call = None, returning = False\<rparr>"

text \<open>\<^verbatim>\<open>query.filter(column, operator, value)\<close> and \<^verbatim>\<open>query.eq(column, value)\<close>\<close>

definition query_filter :: "query \<Rightarrow> string \<Rightarrow> filter_operator \<Rightarrow> jsval \<Rightarrow> query" where
  "query_filter q c op v = q\<lparr>filter_calls := filter_calls q @ [Filter_call c op v]\<rparr>"

definition query_eq :: "query \<Rightarrow> string \<Rightarrow> jsval \<Rightarrow> query" where
  "query_eq q c v = q\<lparr>filter_calls := filter_calls q @ [Eq_call c v]\<rparr>"

text \<open>\<^verbatim>\<open>query.order(column, {ascending})\<close>, \<^verbatim>\<open>query.limit(n)\<close>, \<^verbatim>\<open>query.range(a, b)\<close>, \<^verbatim>\<open>query.select()\<close>\<close>

definition query_order :: "query \<Rightarrow> string \<Rightarrow> bool \<Rightarrow> query" where
  "query_order q c asc = q\<lparr>order_calls := order_calls q @ [(c, asc)]\<rparr>"

definition query_limit :: "query \<Rightarrow> int \<Rightarrow> query" where
  "query_limit q n = q\<lparr>limit_call := Some n\<rparr>"

definition query_range :: "query \<Rightarrow> int \<Rightarrow> int \<Rightarrow> query" where
  "query_range q a b = q\<lparr>range_call := Some (a, b)\<rparr>"

definition query_select :: "query \<Rightarrow> query" where
  "query_select q = q\<lparr>returning := True\<rparr>"

text \<open>
  What a handler does: the items it returns or the value it throws, and the requests it
  sent, in order.
\<close>

datatype INodeExecutionData = Item (json: jsval)

type_synonym outcome = "(jsval + INodeExecutionData list) \<times> request list"

text \<open>\<^verbatim>\<open>v?.length\<close> and \<^verbatim>\<open>Array.isArray(v)\<close> with the rows of an array.\<close>

fun opt_length :: "jsval \<Rightarrow> jsval" where
  "opt_length (JArr xs) = JNum (int (length xs))"
| "opt_length (JStr s) = JNum (int (length s))"
| "opt_length (JObj kvs) = get_prop (JObj kvs) ''length''"
| "opt_length _ = JUndefined"

fun rows_of :: "jsval \<Rightarrow> jsval list" where
  "rows_of (JArr xs) = xs"
| "rows_of _ = []"

section \<open>Row handlers (operations/database/index.ts)\<close>

text \<open>
  \<^verbatim>\<open>JSON.parse\<close> belongs to the runtime. It is a parameter: a partial map from a text to
  the value it denotes, undefined where the parser throws.
\<close>

type_synonym JSON_parser = "string \<rightharpoonup> jsval"

text \<open>
  \<^verbatim>\<open>object[key] = v\<close> on an object built from \<^verbatim>\<open>{}\<close>: an existing property keeps its
  place, a new one goes last (the runtime lists keys that are array indices first; the
  bindings are the same). The key \<^verbatim>\<open>__proto__\<close> reaches the prototype setter and
  creates no property.
\<close>

fun assign :: "(string \<times> jsval) list \<Rightarrow> string \<Rightarrow> jsval \<Rightarrow> (string \<times> jsval) list" where
  "assign [] k v = [(k, v)]"
| "assign ((k', v') # kvs) k v = (if k' = k then (k, v) # kvs else (k', v') # assign kvs k v)"

definition set_property :: "(string \<times> jsval) list \<Rightarrow> string \<Rightarrow> jsval \<Rightarrow> (string \<times> jsval) list" where
  "set_property object k v = (if k = ''__proto__'' then object else assign object k v)"

text \<open>
  The loop of the simple mode:
  \<^verbatim>\<open>for (const column of columns) if (column.name && column.value !== undefined) data[column.name] = column.value\<close>
\<close>

fun columns_loop :: "(string \<times> jsval) list \<Rightarrow> (string \<times> jsval) list \<Rightarrow> (string \<times> jsval) list" where
  "columns_loop dataObject [] = dataObject"
| "columns_loop dataObject ((column_name, column_value) # rest) =
     columns_loop
       (if column_name \<noteq> [] \<and> column_value \<noteq> JUndefined
        then set_property dataObject column_name column_value else dataObject)
       rest"

text \<open>The row object of create, update and upsert, from the mode of the item.\<close>

definition resolve_row :: "JSON_parser \<Rightarrow> parameters \<Rightarrow> jsval + jsval" where
  "resolve_row JSON_parse p =
     (if getNodeParameter (uiMode p) ''simple'' = ''advanced'' then
        (case JSON_parse (getNodeParameter (jsonData p) ''{}'') of
           None \<Rightarrow> Inl (JError ''Invalid JSON data provided'')
         | Some v \<Rightarrow> Inr v)
      else Inr (JObj (columns_loop [] (getNodeParameter (columns p) []))))"

text \<open>
  The loop over the simple filters:
  \<^verbatim>\<open>for (const filter of filters) query = query.filter(filter.column, convertFilterOperator(filter.operator), filter.value)\<close>
\<close>

fun filters_loop :: "query \<Rightarrow> IRowFilter list \<Rightarrow> query" where
  "filters_loop q [] = q"
| "filters_loop q (f # fs) =
     filters_loop (query_filter q (column f) (convertFilterOperator (operator f)) (filter_value f)) fs"

text \<open>The call one simple filter becomes.\<close>

definition filter_call_of :: "IRowFilter \<Rightarrow> filter_call" where
  "filter_call_of f = Filter_call (column f) (convertFilterOperator (operator f)) (filter_value f)"

definition handleCreate :: "JSON_parser \<Rightarrow> SupabaseClient \<Rightarrow> parameters \<Rightarrow> outcome" where
  "handleCreate JSON_parse supabase p =
     (case validateTableName (table p) of
        Inl e \<Rightarrow> (Inl e, [])
      | Inr _ \<Rightarrow>
          (case resolve_row JSON_parse p of
             Inl e \<Rightarrow> (Inl e, [])
           | Inr dataToInsert \<Rightarrow>
               let req = Rest (query_select (from_table_do (table p) (Insert_verb dataToInsert)));
                   r = supabase req
               in if truthy (error r) then (Inl (new_Error (formatSupabaseError (error r))), [req])
                  else (Inr [Item (JObj [(''data'', data r), (''operation'', JStr ''create''),
                                         (''table'', JStr (table p))])], [req])))"

text \<open>
  The advanced filters of a read: every entry of the parsed object is a filter. Whatever
  throws inside the \<^verbatim>\<open>try\<close> (the parser, \<^verbatim>\<open>Object.entries\<close> of null, the destructuring
  of a missing first entry) is replaced by one error, so the loop only says whether it threw.
\<close>

fun Object_entries :: "jsval \<Rightarrow> (string \<times> jsval) list option" where
  "Object_entries JUndefined = None"
| "Object_entries JNull = None"
| "Object_entries (JObj kvs) = Some kvs"
| "Object_entries (JArr xs) = Some (zip (map digits [0 ..< length xs]) xs)"
| "Object_entries (JStr s) = Some (zip (map digits [0 ..< length s]) (map (\<lambda>c. JStr [c]) s))"
| "Object_entries _ = Some []"

fun is_object :: "jsval \<Rightarrow> bool" where
  "is_object (JObj _) = True"
| "is_object (JArr _) = True"
| "is_object (JError _) = True"
| "is_object _ = False"

fun advanced_loop :: "query \<Rightarrow> (string \<times> jsval) list \<Rightarrow> query option" where
  "advanced_loop q [] = Some q"
| "advanced_loop q ((c, condition) # entries) =
     (if is_object condition then
        (case Object_entries condition of
           Some ((op, v) # _) \<Rightarrow> advanced_loop (query_filter q c (convertFilterOperator op) v) entries
         | _ \<Rightarrow> None)
      else advanced_loop (query_eq q c condition) entries)"

definition read_filters :: "JSON_parser \<Rightarrow> parameters \<Rightarrow> query \<Rightarrow> jsval + query" where
  "read_filters JSON_parse p q =
     (if getNodeParameter (uiMode p) ''simple'' = ''simple'' then
        Inr (filters_loop q (getNodeParameter (filters p) []))
      else
        let advanced = getNodeParameter (advancedFilters p) [] in
        if advanced \<noteq> [] then
          (case JSON_parse advanced of
             None \<Rightarrow> Inl (JError ''Invalid advanced filters JSON'')
           | Some parsed \<Rightarrow>
               (case Object_entries parsed of
                  None \<Rightarrow> Inl (JError ''Invalid advanced filters JSON'')
                | Some entries \<Rightarrow>
                    (case advanced_loop q entries of
                       None \<Rightarrow> Inl (JError ''Invalid advanced filters JSON'')
                     | Some q' \<Rightarrow> Inr q')))
        else Inr q)"

fun sort_loop :: "query \<Rightarrow> IRowSort list \<Rightarrow> query" where
  "sort_loop q [] = q"
| "sort_loop q (s # ss) = sort_loop (query_order q (sort_column s) (ascending s)) ss"

definition paginate :: "parameters \<Rightarrow> query \<Rightarrow> query" where
  "paginate p q =
     (let q1 = (case limit p of Some l \<Rightarrow> query_limit q l | None \<Rightarrow> q)
      in case offset p of
           Some off \<Rightarrow>
             query_range q1 off
               (off + (case limit p of Some l \<Rightarrow> (if l \<noteq> 0 then l else 1000) | None \<Rightarrow> 1000) - 1)
         | None \<Rightarrow> q1)"

definition handleRead :: "JSON_parser \<Rightarrow> SupabaseClient \<Rightarrow> parameters \<Rightarrow> outcome" where
  "handleRead JSON_parse supabase p =
     (case validateTableName (table p) of
        Inl e \<Rightarrow> (Inl e, [])
      | Inr _ \<Rightarrow>
          let fields = getNodeParameter (returnFields p) ''*'';
              q0 = (if fields \<noteq> [] \<and> fields \<noteq> ''*''
                    then from_table_do (table p) (Select_verb fields)
                    else from_table_do (table p) (Select_verb ''*''))
          in case read_filters JSON_parse p q0 of
               Inl e \<Rightarrow> (Inl e, [])
             | Inr q1 \<Rightarrow>
                 let req = Rest (paginate p (sort_loop q1 (getNodeParameter (sortField p) [])));
                     r = supabase req
                 in if truthy (error r) then (Inl (new_Error (formatSupabaseError (error r))), [req])
                    else
                      let returnData = map Item (rows_of (data r))
                      in if length returnData = 0 then
                           (Inr [Item (JObj [(''data'', JArr []), (''count'', js_or (count r) (JNum 0)),
                                             (''operation'', JStr ''read''), (''table'', JStr (table p)),
                                             (''message'', JStr ''No records found'')])], [req])
                         else (Inr returnData, [req]))"

definition handleUpdate :: "JSON_parser \<Rightarrow> SupabaseClient \<Rightarrow> parameters \<Rightarrow> outcome" where
  "handleUpdate JSON_parse supabase p =
     (case validateTableName (table p) of
        Inl e \<Rightarrow> (Inl e, [])
      | Inr _ \<Rightarrow>
          (case resolve_row JSON_parse p of
             Inl e \<Rightarrow> (Inl e, [])
           | Inr dataToUpdate \<Rightarrow>
               let q = filters_loop (from_table_do (table p) (Update_verb dataToUpdate))
                         (getNodeParameter (filters p) []);
                   req = Rest (query_select q);
                   r = supabase req
               in if truthy (error r) then (Inl (new_Error (formatSupabaseError (error r))), [req])
                  else (Inr [Item (JObj [(''data'', data r), (''operation'', JStr ''update''),
                                         (''table'', JStr (table p)),
                                         (''updated'', js_or (opt_length (data r)) (JNum 0))])], [req])))"

definition handleDelete :: "SupabaseClient \<Rightarrow> parameters \<Rightarrow> outcome" where
  "handleDelete supabase p =
     (case validateTableName (table p) of
        Inl e \<Rightarrow> (Inl e, [])
      | Inr _ \<Rightarrow>
          let fs = getNodeParameter (filters p) [] in
          if length fs = 0 then
            (Inl (JError ''At least one filter is required for delete operations to prevent accidental data loss''), [])
          else
            let req = Rest (query_select (filters_loop (from_table_do (table p) Delete_verb) fs));
                r = supabase req
            in if truthy (error r) then (Inl (new_Error (formatSupabaseError (error r))), [req])
               else (Inr [Item (JObj [(''data'', data r), (''operation'', JStr ''delete''),
                                      (''table'', JStr (table p)),
                                      (''deleted'', js_or (opt_length (data r)) (JNum 0))])], [req]))"

definition handleUpsert :: "JSON_parser \<Rightarrow> SupabaseClient \<Rightarrow> parameters \<Rightarrow> outcome" where
  "handleUpsert JSON_parse supabase p =
     (case validateTableName (table p) of
        Inl e \<Rightarrow> (Inl e, [])
      | Inr _ \<Rightarrow>
          (case resolve_row JSON_parse p of
             Inl e \<Rightarrow> (Inl e, [])
           | Inr dataToUpsert \<Rightarrow>
               let conflict = getNodeParameter (onConflict p) [];
                   options = (if conflict \<noteq> [] then Some conflict else None);
                   req = Rest (query_select (from_table_do (table p) (Upsert_verb dataToUpsert options)));
                   r = supabase req
               in if truthy (error r) then (Inl (new_Error (formatSupabaseError (error r))), [req])
                  else (Inr [Item (JObj [(''data'', data r), (''operation'', JStr ''upsert''),
                                         (''table'', JStr (table p))])], [req])))"

section \<open>Schema handlers and custom queries (operations/database/index.ts)\<close>

text \<open>An identifier between double quotes, as the templates write \<^verbatim>\<open>"${name}"\<close>.\<close>

definition double_quoted :: "string \<Rightarrow> string" where
  "double_quoted s = [CHR 0x22] @ s @ [CHR 0x22]"

text \<open>A boolean or string field that may be absent, read as a condition.\<close>

definition flag_set :: "bool option \<Rightarrow> bool" where
  "flag_set b = (b = Some True)"

definition text_set :: "string option \<Rightarrow> bool" where
  "text_set t = (case t of Some s \<Rightarrow> s \<noteq> [] | None \<Rightarrow> False)"

text \<open>
  \<^verbatim>\<open>const { data, error } = await supabase.rpc(fn, { sql }); if (error) throw ...; return [item]\<close>
\<close>

definition rpc_then :: "SupabaseClient \<Rightarrow> string \<Rightarrow> string \<Rightarrow> (response \<Rightarrow> INodeExecutionData list) \<Rightarrow> outcome" where
  "rpc_then supabase fn sql reshape =
     (let req = Rpc fn sql; r = supabase req
      in if truthy (error r) then (Inl (new_Error (formatSupabaseError (error r))), [req])
         else (Inr (reshape r), [req]))"

definition column_def :: "IColumnDefinition \<Rightarrow> string" where
  "column_def c =
     double_quoted (name c) @ '' '' @ col_type c
     @ (if \<not> flag_set (nullable c) then '' NOT NULL'' else [])
     @ (if text_set (defaultValue c) then '' DEFAULT '' @ the (defaultValue c) else [])
     @ (if flag_set (primaryKey c) then '' PRIMARY KEY'' else [])
     @ (if flag_set (unique c) \<and> \<not> flag_set (primaryKey c) then '' UNIQUE'' else [])"

fun column_defs_loop :: "string list \<Rightarrow> IColumnDefinition list \<Rightarrow> jsval + string list" where
  "column_defs_loop columnDefs [] = Inr columnDefs"
| "column_defs_loop columnDefs (c # cs) =
     (case validateColumnName (name c) of
        Inl e \<Rightarrow> Inl e
      | Inr _ \<Rightarrow> column_defs_loop (columnDefs @ [column_def c]) cs)"

definition handleCreateTable :: "SupabaseClient \<Rightarrow> parameters \<Rightarrow> outcome" where
  "handleCreateTable supabase p =
     (case validateTableName (tableName p) of
        Inl e \<Rightarrow> (Inl e, [])
      | Inr _ \<Rightarrow>
          let cols = getNodeParameter (columnDefinitions p) [] in
          if length cols = 0 then (Inl (JError ''At least one column definition is required''), [])
          else
            (case column_defs_loop [] cols of
               Inl e \<Rightarrow> (Inl e, [])
             | Inr columnDefs \<Rightarrow>
                 let sql = ''CREATE TABLE '' @ double_quoted (tableName p) @ '' ('' @ js_join '', '' columnDefs @ '')''
                 in rpc_then supabase ''exec_sql'' sql
                      (\<lambda>r. [Item (JObj [(''operation'', JStr ''createTable''), (''tableName'', JStr (tableName p)),
                                         (''sql'', JStr sql), (''success'', JBool True)])])))"

definition handleDropTable :: "SupabaseClient \<Rightarrow> parameters \<Rightarrow> outcome" where
  "handleDropTable supabase p =
     (case validateTableName (tableName p) of
        Inl e \<Rightarrow> (Inl e, [])
      | Inr _ \<Rightarrow>
          let sql = ''DROP TABLE '' @ double_quoted (tableName p)
                    @ (if getNodeParameter (cascade p) False then '' CASCADE'' else [])
          in rpc_then supabase ''exec_sql'' sql
               (\<lambda>r. [Item (JObj [(''operation'', JStr ''dropTable''), (''tableName'', JStr (tableName p)),
                                  (''sql'', JStr sql), (''success'', JBool True)])]))"

definition handleAddColumn :: "SupabaseClient \<Rightarrow> parameters \<Rightarrow> outcome" where
  "handleAddColumn supabase p =
     (case validateTableName (tableName p) of
        Inl e \<Rightarrow> (Inl e, [])
      | Inr _ \<Rightarrow>
          (case validateColumnName (name (columnDefinition p)) of
             Inl e \<Rightarrow> (Inl e, [])
           | Inr _ \<Rightarrow>
               let c = columnDefinition p;
                   sql = ''ALTER TABLE '' @ double_quoted (tableName p) @ '' ADD COLUMN ''
                         @ double_quoted (name c) @ '' '' @ col_type c
                         @ (if \<not> flag_set (nullable c) then '' NOT NULL'' else [])
                         @ (if text_set (defaultValue c) then '' DEFAULT '' @ the (defaultValue c) else [])
               in rpc_then supabase ''exec_sql'' sql
                    (\<lambda>r. [Item (JObj [(''operation'', JStr ''addColumn''), (''tableName'', JStr (tableName p)),
                                       (''columnName'', JStr (name c)), (''sql'', JStr sql),
                                       (''success'', JBool True)])])))"

definition handleDropColumn :: "SupabaseClient \<Rightarrow> parameters \<Rightarrow> outcome" where
  "handleDropColumn supabase p =
     (case validateTableName (tableName p) of
        Inl e \<Rightarrow> (Inl e, [])
      | Inr _ \<Rightarrow>
          (case validateColumnName (columnName p) of
             Inl e \<Rightarrow> (Inl e, [])
           | Inr _ \<Rightarrow>
               let sql = ''ALTER TABLE '' @ double_quoted (tableName p) @ '' DROP COLUMN ''
                         @ double_quoted (columnName p)
                         @ (if getNodeParameter (cascade p) False then '' CASCADE'' else [])
               in rpc_then supabase ''exec_sql'' sql
                    (\<lambda>r. [Item (JObj [(''operation'', JStr ''dropColumn''), (''tableName'', JStr (tableName p)),
                                       (''columnName'', JStr (columnName p)), (''sql'', JStr sql),
                                       (''success'', JBool True)])])))"

definition handleCreateIndex :: "SupabaseClient \<Rightarrow> parameters \<Rightarrow> outcome" where
  "handleCreateIndex supabase p =
     (case validateTableName (tableName p) of
        Inl e \<Rightarrow> (Inl e, [])
      | Inr _ \<Rightarrow>
          let d = indexDefinition p in
          if index_name d = [] \<or> length (index_columns d) = 0 then
            (Inl (JError ''Index name and columns are required''), [])
          else
            let uniqueKeyword = (if flag_set (index_unique d) then ''UNIQUE '' else []);
                using_method = (if text_set (index_method d) then '' USING '' @ the (index_method d) else []);
                columnList = js_join '', '' (map double_quoted (index_columns d));
                sql = ''CREATE '' @ uniqueKeyword @ ''INDEX '' @ double_quoted (index_name d) @ '' ON ''
                      @ double_quoted (tableName p) @ using_method @ '' ('' @ columnList @ '')''
            in rpc_then supabase ''exec_sql'' sql
                 (\<lambda>r. [Item (JObj [(''operation'', JStr ''createIndex''), (''tableName'', JStr (tableName p)),
                                    (''indexName'', JStr (index_name d)), (''sql'', JStr sql),
                                    (''success'', JBool True)])]))"

definition handleDropIndex :: "SupabaseClient \<Rightarrow> parameters \<Rightarrow> outcome" where
  "handleDropIndex supabase p =
     (if indexName p = [] then (Inl (JError ''Index name is required''), [])
      else
        let sql = ''DROP INDEX '' @ double_quoted (indexName p)
                  @ (if getNodeParameter (cascade p) False then '' CASCADE'' else [])
        in rpc_then supabase ''exec_sql'' sql
             (\<lambda>r. [Item (JObj [(''operation'', JStr ''dropIndex''), (''indexName'', JStr (indexName p)),
                                (''sql'', JStr sql), (''success'', JBool True)])]))"

text \<open>\<^verbatim>\<open>!customSql?.trim()\<close>: the text is absent, or nothing is left of it once trimmed.\<close>

definition blank_sql :: "string option \<Rightarrow> bool" where
  "blank_sql s = (case s of None \<Rightarrow> True | Some t \<Rightarrow> js_trim t = [])"

definition handleCustomQuery :: "SupabaseClient \<Rightarrow> parameters \<Rightarrow> outcome" where
  "handleCustomQuery supabase p =
     (if blank_sql (customSql p) then (Inl (JError ''SQL query is required''), [])
      else
        let sql = the (customSql p) in
        if js_startsWith (js_toLowerCase (js_trim sql)) ''select'' then
          rpc_then supabase ''exec_sql_select'' sql
            (\<lambda>r. let returnData = map Item (rows_of (data r))
                  in if length returnData = 0 then
                       [Item (JObj [(''data'', JArr []), (''operation'', JStr ''customQuery''), (''sql'', JStr sql),
                                    (''message'', JStr ''Query executed successfully, no results returned'')])]
                     else returnData)
        else
          rpc_then supabase ''exec_sql'' sql
            (\<lambda>r. [Item (JObj [(''operation'', JStr ''customQuery''), (''sql'', JStr sql),
                               (''result'', data r), (''success'', JBool True)])]))"

section \<open>Dispatch and the batch loop\<close>

definition executeDatabaseOperation :: "JSON_parser \<Rightarrow> SupabaseClient \<Rightarrow> string \<Rightarrow> parameters \<Rightarrow> outcome" where
  "executeDatabaseOperation JSON_parse supabase op p =
     (let (r, sent) =
        (if op = ''create'' then handleCreate JSON_parse supabase p
         else if op = ''read'' then handleRead JSON_parse supabase p
         else if op = ''update'' then handleUpdate JSON_parse supabase p
         else if op = ''delete'' then handleDelete supabase p
         else if op = ''upsert'' then handleUpsert JSON_parse supabase p
         else if op = ''createTable'' then handleCreateTable supabase p
         else if op = ''dropTable'' then handleDropTable supabase p
         else if op = ''addColumn'' then handleAddColumn supabase p
         else if op = ''dropColumn'' then handleDropColumn supabase p
         else if op = ''createIndex'' then handleCreateIndex supabase p
         else if op = ''dropIndex'' then handleDropIndex supabase p
         else if op = ''customQuery'' then handleCustomQuery supabase p
         else (Inl (JError (''Unknown database operation: '' @ op)), []))
      in case r of
           Inl e \<Rightarrow> (Inl (JError (''Database operation failed: '' @ js_to_string (formatSupabaseError e))), sent)
         | Inr returnData \<Rightarrow> (Inr returnData, sent))"

text \<open>
  The host's side of \<^verbatim>\<open>this\<close>: the input items with their parameters, the credentials
  and the continue-on-failure switch. The storage dispatcher is a parameter of the loop.
\<close>

record IExecuteFunctions =
  getInputData :: "parameters list"
  getCredentials :: ISupabaseCredentials
  continueOnFail :: bool

datatype NodeOperationError = NodeOperationError string "nat option"

type_synonym storage_dispatcher = "string \<Rightarrow> nat \<Rightarrow> parameters \<Rightarrow> outcome"

text \<open>The body of the \<^verbatim>\<open>try\<close> for one item.\<close>

definition run_item :: "JSON_parser \<Rightarrow> SupabaseClient \<Rightarrow> storage_dispatcher \<Rightarrow> nat \<Rightarrow> parameters \<Rightarrow> outcome" where
  "run_item JSON_parse supabase executeStorageOperation itemIndex p =
     (if resource p = ''database'' then executeDatabaseOperation JSON_parse supabase (operation p) p
      else if resource p = ''storage'' then executeStorageOperation (operation p) itemIndex p
      else (Inl (JError (''Unknown resource: '' @ resource p)), []))"

text \<open>\<^verbatim>\<open>error instanceof Error ? error.message : fallback\<close>\<close>

fun message_or :: "jsval \<Rightarrow> string \<Rightarrow> string" where
  "message_or (JError m) fallback = m"
| "message_or _ fallback = fallback"

text \<open>
  The loop over the items, from \<open>itemIndex\<close> on, with the records and the requests so far.
\<close>

fun items_loop ::
  "JSON_parser \<Rightarrow> SupabaseClient \<Rightarrow> storage_dispatcher \<Rightarrow> bool \<Rightarrow> nat \<Rightarrow> parameters list \<Rightarrow>
   INodeExecutionData list \<Rightarrow> request list \<Rightarrow> (NodeOperationError + INodeExecutionData list) \<times> request list" where
  "items_loop JSON_parse supabase storage continue itemIndex [] returnData sent = (Inr returnData, sent)"
| "items_loop JSON_parse supabase storage continue itemIndex (p # items) returnData sent =
     (case run_item JSON_parse supabase storage itemIndex p of
        (Inr operationResults, calls) \<Rightarrow>
          items_loop JSON_parse supabase storage continue (Suc itemIndex) items
            (returnData @ operationResults) (sent @ calls)
      | (Inl e, calls) \<Rightarrow>
          let errorMessage = message_or e ''Unknown error occurred'' in
          if continue then
            items_loop JSON_parse supabase storage continue (Suc itemIndex) items
              (returnData @ [Item (JObj [(''error'', JStr errorMessage), (''itemIndex'', JNum (int itemIndex))])])
              (sent @ calls)
          else (Inl (NodeOperationError errorMessage (Some itemIndex)), sent @ calls))"

definition execute ::
  "(string \<rightharpoonup> URL) \<Rightarrow> JSON_parser \<Rightarrow> (ISupabaseCredentials \<Rightarrow> SupabaseClient) \<Rightarrow> storage_dispatcher \<Rightarrow>
   IExecuteFunctions \<Rightarrow> (NodeOperationError + INodeExecutionData list list) \<times> request list" where
  "execute new_URL JSON_parse createSupabaseClient storage this =
     (case validateCredentials new_URL (getCredentials this) of
        Inl e \<Rightarrow> (Inl (NodeOperationError (''Invalid credentials: '' @ message_or e ''Unknown error'') None), [])
      | Inr _ \<Rightarrow>
          (case items_loop JSON_parse (createSupabaseClient (getCredentials this)) storage
                  (continueOnFail this) 0 (getInputData this) [] [] of
             (Inl e, sent) \<Rightarrow> (Inl e, sent)
           | (Inr returnData, sent) \<Rightarrow> (Inr [returnData], sent)))"

section \<open>Concrete inputs\<close>

text \<open>
  An item that sets nothing (texts empty, every optional parameter absent), and a backend
  that gives the same answer to every request. The concrete instances start from them.
\<close>

definition blank_item :: parameters where
  "blank_item =
     \<lparr>resource = ''database'', operation = [], table = [], uiMode = None, jsonData = None, columns = None,
      filters = None, advancedFilters = None, returnFields = None, sortField = None, limit = None,
      offset = None, onConflict = None, tableName = [], columnDefinitions = None,
      columnDefinition = \<lparr>name = [], col_type = [], nullable = None, defaultValue = None,
                           primaryKey = None, unique = None\<rparr>,
      columnName = [], cascade = None,
      indexDefinition = \<lparr>index_name = [], index_columns = [], index_unique = None, index_method = None\<rparr>,
      indexName = [], customSql = None\<rparr>"

definition answering :: "response \<Rightarrow> SupabaseClient" where
  "answering r req = r"

text \<open>A storage dispatcher for batches of database items: it throws whatever it is asked.\<close>

definition no_storage :: storage_dispatcher where
  "no_storage op itemIndex p = (Inl (JError ''Storage operation failed: no storage backend''), [])"

text \<open>In words: a text starts with \<^verbatim>\<open>select\<close>, in any mix of cases.\<close>

definition same_letter :: "char \<Rightarrow> char \<Rightarrow> bool" where
  "same_letter c l = (c = l \<or> (of_char c :: nat) + 32 = of_char l)"

definition starts_with_select :: "string \<Rightarrow> bool" where
  "starts_with_select t = (6 \<le> length t \<and> list_all2 same_letter (take 6 t) ''select'')"

section \<open>What the anchored pattern accepts\<close>

lemma repeat_Nil: "[] \<in> repeat L"
  unfolding repeat_def by (rule CollectI, rule exI [of _ "[]"]) simp

lemma repeat_append: "u \<in> L \<Longrightarrow> v \<in> repeat L \<Longrightarrow> u @ v \<in> repeat L"
proof -
  assume u: "u \<in> L" and v: "v \<in> repeat L"
  from v obtain ws where ws: "v = concat ws" "set ws \<subseteq> L" by (auto simp: repeat_def)
  then have "u @ v = concat (u # ws)" "set (u # ws) \<subseteq> L" using u by auto
  then show ?thesis unfolding repeat_def by blast
qed

lemma concat_Cons_split:
  "concat ws = c # s \<Longrightarrow> set ws \<subseteq> L \<Longrightarrow> \<exists>u vs. c # u \<in> L \<and> set vs \<subseteq> L \<and> s = u @ concat vs"
proof (induction ws)
  case Nil
  then show ?case by simp
next
  case (Cons w ws)
  show ?case
  proof (cases w)
    case Nil
    with Cons show ?thesis by simp
  next
    case (Cons d u)
    with Cons.prems have "d = c" "s = u @ concat ws" "c # u \<in> L" "set ws \<subseteq> L" by auto
    then show ?thesis by blast
  qed
qed

lemma repeat_Cons: "c # s \<in> repeat L \<longleftrightarrow> (\<exists>u v. c # u \<in> L \<and> v \<in> repeat L \<and> s = u @ v)"
proof
  assume "c # s \<in> repeat L"
  then obtain ws where "concat ws = c # s" "set ws \<subseteq> L" by (auto simp: repeat_def)
  from concat_Cons_split [OF this] show "\<exists>u v. c # u \<in> L \<and> v \<in> repeat L \<and> s = u @ v"
    unfolding repeat_def by blast
next
  assume "\<exists>u v. c # u \<in> L \<and> v \<in> repeat L \<and> s = u @ v"
  then obtain u v where "c # u \<in> L" "v \<in> repeat L" "s = u @ v" by blast
  then show "c # s \<in> repeat L" using repeat_append [of "c # u" L v] by simp
qed

lemma accepts_empty_lang: "accepts_empty r \<longleftrightarrow> [] \<in> lang r"
  by (induction r) (auto simp: repeat_Nil)

lemma lang_deriv: "s \<in> lang (deriv c r) \<longleftrightarrow> c # s \<in> lang r"
proof (induction r arbitrary: s)
  case (Then a b)
  show ?case
    by (auto simp: Then accepts_empty_lang Cons_eq_append_conv)
next
  case (Many a)
  show ?case by (auto simp: Many repeat_Cons)
qed auto

lemma regex_test_lang: "regex_test r s \<longleftrightarrow> s \<in> lang r"
  unfolding regex_test_def
  by (induction s arbitrary: r) (simp_all add: accepts_empty_lang lang_deriv)

lemma repeat_singletons: "s \<in> repeat {[c] | c. P c} \<longleftrightarrow> list_all P s"
proof
  assume "s \<in> repeat {[c] | c. P c}"
  then obtain ws where ws: "s = concat ws" "set ws \<subseteq> {[c] | c. P c}" by (auto simp: repeat_def)
  from ws(2) have "list_all P (concat ws)"
    by (induction ws) auto
  with ws show "list_all P s" by simp
next
  assume "list_all P s"
  then show "s \<in> repeat {[c] | c. P c}"
  proof (induction s)
    case Nil
    show ?case by (rule repeat_Nil)
  next
    case (Cons d s)
    then have "[d] \<in> {[c] | c. P c}" "s \<in> repeat {[c] | c. P c}" by auto
    from repeat_append [OF this] show ?case by simp
  qed
qed

lemma letters_ranges:
  "in_ranges c [(CHR ''a'', CHR ''z''), (CHR ''A'', CHR ''Z'')] \<longleftrightarrow> ascii_letter c"
  by (cases c) (simp add: in_ranges_def ascii_letter_def, blast?)

lemma words_ranges:
  "in_ranges c [(CHR ''a'', CHR ''z''), (CHR ''A'', CHR ''Z''), (CHR ''0'', CHR ''9''), (CHR ''_'', CHR ''_'')] \<longleftrightarrow> word_char c"
  by (cases c) (simp add: in_ranges_def ascii_letter_def word_char_def, blast?)

lemma lang_identifier_regex:
  "s \<in> lang identifier_regex \<longleftrightarrow> (case s of [] \<Rightarrow> False | c # cs \<Rightarrow> ascii_letter c \<and> list_all word_char cs)"
proof -
  have "s \<in> lang identifier_regex \<longleftrightarrow> (\<exists>c v. s = [c] @ v \<and> ascii_letter c \<and> list_all word_char v)"
    unfolding identifier_regex_def lang.simps letters_ranges words_ranges
    by (simp only: repeat_singletons [of _ word_char] mem_Collect_eq) blast
  then show ?thesis by (cases s) auto
qed

lemma regex_test_identifier:
  "regex_test identifier_regex s \<longleftrightarrow> (case s of [] \<Rightarrow> False | c # cs \<Rightarrow> ascii_letter c \<and> list_all word_char cs)"
  by (simp only: regex_test_lang lang_identifier_regex)

text \<open>
  C4. \<open>validateTableName\<close> and \<open>validateColumnName\<close> accept exactly the identifiers of the
  specification: the strings of the pattern \<^verbatim>\<open>^[A-Za-z][A-Za-z0-9_]*$\<close> that are at most 63
  characters long. They return without error on each of them, and throw an \<^verbatim>\<open>Error\<close> on
  every other string.
\<close>

theorem validate_names_accept_exactly_identifiers:
  "(spec_identifier s \<longleftrightarrow> s \<in> lang identifier_regex \<and> length s \<le> 63) \<and>
   (if spec_identifier s
    then validateTableName s = Inr () \<and> validateColumnName s = Inr ()
    else (\<exists>m. validateTableName s = Inl (JError m)) \<and> (\<exists>m. validateColumnName s = Inl (JError m)))"
  by (cases s) (auto simp: validateTableName_def validateColumnName_def regex_test_identifier
      lang_identifier_regex)

text \<open>
  The kinds of string the specification lists: an identifier, the empty string, a leading
  digit, a special character, 64 characters, 63 characters.
\<close>

lemma validate_examples:
  "validateTableName ''users_2024'' = Inr ()"
  "validateTableName [] = Inl (JError ''Table name is required'')"
  "validateColumnName ''9lives'' =
     Inl (JError ''Column name must start with a letter and contain only letters, numbers, and underscores'')"
  "validateColumnName ''full name'' =
     Inl (JError ''Column name must start with a letter and contain only letters, numbers, and underscores'')"
  "validateTableName ''aaaaaaaaaaaaaaaaaaaaaaaaaaaaaaaaaaaaaaaaaaaaaaaaaaaaaaaaaaaaaaaa'' =
     Inl (JError ''Table name must be 63 characters or less'')"
  "validateTableName ''aaaaaaaaaaaaaaaaaaaaaaaaaaaaaaaaaaaaaaaaaaaaaaaaaaaaaaaaaaaaaaa'' = Inr ()"
  by (simp_all add: validateTableName_def validateColumnName_def regex_test_identifier
      ascii_letter_def word_char_def list_all_iff)

section \<open>The error normalizer\<close>

text \<open>
  C5, as the code has it. The normalizer tries, in order: a falsy input (null, undefined,
  and also the empty string, 0 and false) gives the fixed text \<^verbatim>\<open>Unknown error occurred\<close>;
  a non-empty string is returned unchanged; otherwise the first of \<^verbatim>\<open>message\<close>,
  \<^verbatim>\<open>error_description\<close> and \<^verbatim>\<open>details\<close> whose value is truthy is returned as it is; and
  as a last resort what \<^verbatim>\<open>JSON.stringify\<close> returns for the input. The examples of the
  specification hold: \<^verbatim>\<open>{message: "boom"}\<close> gives \<^verbatim>\<open>boom\<close>, a raw string is itself,
  \<^verbatim>\<open>{}\<close> gives the text \<^verbatim>\<open>{}\<close>.
\<close>

theorem formatSupabaseError_order:
  "formatSupabaseError e =
     (if \<not> truthy e then JStr ''Unknown error occurred''
      else if is_string e then e
      else case find truthy (map (get_prop e) [''message'', ''error_description'', ''details'']) of
             Some v \<Rightarrow> v
           | None \<Rightarrow> JSON_stringify e) \<and>
   formatSupabaseError JNull = JStr ''Unknown error occurred'' \<and>
   formatSupabaseError JUndefined = JStr ''Unknown error occurred'' \<and>
   formatSupabaseError (JStr ''raw string'') = JStr ''raw string'' \<and>
   formatSupabaseError (JObj [(''message'', JStr ''boom'')]) = JStr ''boom'' \<and>
   formatSupabaseError (JObj []) = JStr ''{}''"
proof -
  have "formatSupabaseError e =
     (if \<not> truthy e then JStr ''Unknown error occurred''
      else if is_string e then e
      else case find truthy (map (get_prop e) [''message'', ''error_description'', ''details'']) of
             Some v \<Rightarrow> v
           | None \<Rightarrow> JSON_stringify e)"
    by (simp add: formatSupabaseError_def)
  moreover have "formatSupabaseError JNull = JStr ''Unknown error occurred''"
    "formatSupabaseError JUndefined = JStr ''Unknown error occurred''"
    "formatSupabaseError (JStr ''raw string'') = JStr ''raw string''"
    "formatSupabaseError (JObj [(''message'', JStr ''boom'')]) = JStr ''boom''"
    "formatSupabaseError (JObj []) = JStr ''{}''"
    by (simp_all add: formatSupabaseError_def JSON_stringify_def)
  ultimately show ?thesis by blast
qed

text \<open>
  C5 as stated fails: the empty string is a string input that is not returned unchanged;
  a \<^verbatim>\<open>message\<close> that is present but empty is passed over; a \<^verbatim>\<open>message\<close> that is not a
  string is returned as the number it is.
\<close>

theorem formatSupabaseError_counterexample:
  "formatSupabaseError (JStr []) = JStr ''Unknown error occurred'' \<and>
   formatSupabaseError (JStr []) \<noteq> JStr [] \<and>
   formatSupabaseError (JObj [(''message'', JStr []), (''details'', JStr ''d'')]) = JStr ''d'' \<and>
   formatSupabaseError (JObj [(''message'', JNum 42)]) = JNum 42"
  by (simp add: formatSupabaseError_def)

section \<open>Credential validation\<close>

text \<open>\<open>js_includes\<close> is the substring test.\<close>

lemma js_includes_iff: "js_includes s sub \<longleftrightarrow> (\<exists>u v. s = u @ sub @ v)"
proof
  assume "js_includes s sub"
  then obtain i where "take (length sub) (drop i s) = sub"
    by (auto simp: js_includes_def list_ex_iff)
  then have "s = take i s @ sub @ drop (length sub) (drop i s)"
    by (metis append_take_drop_id)
  then show "\<exists>u v. s = u @ sub @ v" by blast
next
  assume "\<exists>u v. s = u @ sub @ v"
  then obtain u v where s: "s = u @ sub @ v" by blast
  then have "take (length sub) (drop (length u) s) = sub" "length u < Suc (length s)" by simp_all
  then show "js_includes s sub"
    unfolding js_includes_def list_ex_iff by (metis atLeast0LessThan lessThan_iff set_upt)
qed

text \<open>
  C9, as the code has it. Validation succeeds exactly when the host and the key are not
  empty, the host parses as a URL, and the host text contains \<^verbatim>\<open>supabase.co\<close> or
  \<^verbatim>\<open>localhost\<close>. A parsable host with a key that contains neither is refused with
  \<^verbatim>\<open>URL must be a valid Supabase project URL\<close>: the domain check is fatal, not a warning.
  A missing host, a missing key and an unparsable host throw an \<^verbatim>\<open>Error\<close> as well.
\<close>

theorem validateCredentials_domain_is_fatal:
  "(validateCredentials new_URL c = Inr () \<longleftrightarrow>
      host c \<noteq> [] \<and> serviceKey c \<noteq> [] \<and> new_URL (host c) \<noteq> None \<and>
      (js_includes (host c) ''supabase.co'' \<or> js_includes (host c) ''localhost'')) \<and>
   (host c \<noteq> [] \<and> serviceKey c \<noteq> [] \<and> new_URL (host c) \<noteq> None \<and>
    \<not> js_includes (host c) ''supabase.co'' \<and> \<not> js_includes (host c) ''localhost'' \<longrightarrow>
      validateCredentials new_URL c = Inl (JError ''URL must be a valid Supabase project URL'')) \<and>
   (host c = [] \<or> serviceKey c = [] \<or> new_URL (host c) = None \<longrightarrow>
      (\<exists>m. validateCredentials new_URL c = Inl (JError m)))"
  by (auto simp: validateCredentials_def)

theorem validateCredentials_domain_is_fatal_witness:
  "validateCredentials [''https://abc.supabase.co'' \<mapsto> \<lparr>protocol = ''https:'', url_host = ''abc.supabase.co''\<rparr>]
     \<lparr>host = ''https://abc.supabase.co'', serviceKey = ''service-role-key'', schema = None\<rparr> = Inr () \<and>
   validateCredentials [''https://example.com'' \<mapsto> \<lparr>protocol = ''https:'', url_host = ''example.com''\<rparr>]
     \<lparr>host = ''https://example.com'', serviceKey = ''service-role-key'', schema = None\<rparr>
   = Inl (JError ''URL must be a valid Supabase project URL'') \<and>
   (\<exists>m. validateCredentials Map.empty
     \<lparr>host = ''not a url'', serviceKey = ''service-role-key'', schema = None\<rparr> = Inl (JError m))"
  using validateCredentials_domain_is_fatal
     [of "[''https://abc.supabase.co'' \<mapsto> \<lparr>protocol = ''https:'', url_host = ''abc.supabase.co''\<rparr>]"
         "\<lparr>host = ''https://abc.supabase.co'', serviceKey = ''service-role-key'', schema = None\<rparr>"]
    validateCredentials_domain_is_fatal
     [of "[''https://example.com'' \<mapsto> \<lparr>protocol = ''https:'', url_host = ''example.com''\<rparr>]"
         "\<lparr>host = ''https://example.com'', serviceKey = ''service-role-key'', schema = None\<rparr>"]
    validateCredentials_domain_is_fatal
     [of Map.empty "\<lparr>host = ''not a url'', serviceKey = ''service-role-key'', schema = None\<rparr>"]
  by (simp add: js_includes_def)

text \<open>
  C9 as stated fails: a credential with a parsable host and a key, on another domain, is
  refused.
\<close>

theorem validateCredentials_foreign_domain_counterexample:
  "validateCredentials [''https://example.com'' \<mapsto> \<lparr>protocol = ''https:'', url_host = ''example.com''\<rparr>]
     \<lparr>host = ''https://example.com'', serviceKey = ''service-role-key'', schema = None\<rparr>
   = Inl (JError ''URL must be a valid Supabase project URL'')"
  by (simp add: validateCredentials_def js_includes_def)

section \<open>Filters of delete and update\<close>

lemma filters_loop_appends:
  "filters_loop q fs = q\<lparr>filter_calls := filter_calls q @ map filter_call_of fs\<rparr>"
  by (induction fs arbitrary: q) (simp_all add: query_filter_def filter_call_of_def)

lemma convertFilterOperator_examples:
  "convertFilterOperator ''gt'' = Operator ''gt''"
  "convertFilterOperator ''between'' = Operator ''eq''"
  "convertFilterOperator ''constructor'' = Inherited ''constructor''"
  by (simp_all add: convertFilterOperator_def inherited_names_def)

lemma validateTableName_throws_Error:
  "validateTableName s = Inr () \<or> (\<exists>m. validateTableName s = Inl (JError m))"
  by (simp add: validateTableName_def)

lemma users_is_a_table_name: "validateTableName ''users'' = Inr ()"
  by (simp add: validateTableName_def regex_test_identifier ascii_letter_def word_char_def)

lemma handleUpdate_sends:
  "validateTableName (table p) = Inr () \<Longrightarrow> resolve_row JSON_parse p = Inr row \<Longrightarrow>
   snd (handleUpdate JSON_parse supabase p) =
     [Rest \<lparr>from_table = table p, verb = Update_verb row,
            filter_calls = map filter_call_of (getNodeParameter (filters p) []),
            order_calls = [], limit_call = None, range_call = None, returning = True\<rparr>]"
  by (simp add: handleUpdate_def Let_def filters_loop_appends query_select_def from_table_do_def)

text \<open>
  C1. A delete whose simple filter list is empty always throws an \<^verbatim>\<open>Error\<close> and sends
  nothing to the backend; once the table name has passed \<open>validateTableName\<close> (the check
  that runs first) the error is the guard's, with the message that at least one filter is
  required. A delete with at least one filter and a valid table name passes the guard and
  sends one request, whose filter calls are the filters of the item, each translated, in
  their order.
\<close>

theorem delete_requires_a_filter:
  "(getNodeParameter (filters p) [] = [] \<longrightarrow>
      (\<exists>m. handleDelete supabase p = (Inl (JError m), [])) \<and>
      (validateTableName (table p) = Inr () \<longrightarrow>
         handleDelete supabase p =
           (Inl (JError ''At least one filter is required for delete operations to prevent accidental data loss''), []))) \<and>
   (getNodeParameter (filters p) [] \<noteq> [] \<and> validateTableName (table p) = Inr () \<longrightarrow>
      snd (handleDelete supabase p) =
        [Rest \<lparr>from_table = table p, verb = Delete_verb,
               filter_calls = map filter_call_of (getNodeParameter (filters p) []),
               order_calls = [], limit_call = None, range_call = None, returning = True\<rparr>])"
proof -
  have "\<exists>m. validateTableName (table p) = Inl (JError m)" if "validateTableName (table p) \<noteq> Inr ()"
    using that validateTableName_throws_Error [of "table p"] by blast
  then show ?thesis
    by (auto simp: handleDelete_def Let_def filters_loop_appends query_select_def from_table_do_def
        split: sum.splits)
qed

theorem delete_requires_a_filter_witness:
  "handleDelete (answering \<lparr>data = JArr [], error = JNull, count = JNull\<rparr>) (blank_item\<lparr>table := ''users''\<rparr>) =
     (Inl (JError ''At least one filter is required for delete operations to prevent accidental data loss''), []) \<and>
   (\<exists>m. handleDelete (answering \<lparr>data = JArr [], error = JNull, count = JNull\<rparr>) blank_item = (Inl (JError m), [])) \<and>
   snd (handleDelete (answering \<lparr>data = JArr [], error = JNull, count = JNull\<rparr>)
          (blank_item\<lparr>table := ''users'',
             filters := Some [\<lparr>column = ''age'', operator = ''gt'', filter_value = JNum 25\<rparr>,
                              \<lparr>column = ''status'', operator = ''eq'', filter_value = JStr ''active''\<rparr>]\<rparr>)) =
     [Rest \<lparr>from_table = ''users'', verb = Delete_verb,
            filter_calls = [Filter_call ''age'' (Operator ''gt'') (JNum 25),
                            Filter_call ''status'' (Operator ''eq'') (JStr ''active'')],
            order_calls = [], limit_call = None, range_call = None, returning = True\<rparr>]"
  using delete_requires_a_filter
     [of "blank_item\<lparr>table := ''users''\<rparr>" "answering \<lparr>data = JArr [], error = JNull, count = JNull\<rparr>"]
    delete_requires_a_filter
     [of blank_item "answering \<lparr>data = JArr [], error = JNull, count = JNull\<rparr>"]
    delete_requires_a_filter
     [of "blank_item\<lparr>table := ''users'',
             filters := Some [\<lparr>column = ''age'', operator = ''gt'', filter_value = JNum 25\<rparr>,
                              \<lparr>column = ''status'', operator = ''eq'', filter_value = JStr ''active''\<rparr>]\<rparr>"
         "answering \<lparr>data = JArr [], error = JNull, count = JNull\<rparr>"]
    users_is_a_table_name
  by (simp add: blank_item_def getNodeParameter_def filter_call_of_def convertFilterOperator_def)

text \<open>
  C10. Neither handler reads \<^verbatim>\<open>advancedFilters\<close> (nor does delete read the mode): changing
  them changes nothing. The filter calls of an update are the simple filters of the item.
  So an item in advanced mode that carries no simple filter sends an update with no filter
  call at all, and its delete stops at the empty-filter guard.
\<close>

theorem update_and_delete_ignore_advancedFilters:
  "handleUpdate JSON_parse supabase (p\<lparr>advancedFilters := a\<rparr>) = handleUpdate JSON_parse supabase p \<and>
   handleDelete supabase (p\<lparr>advancedFilters := a, uiMode := m\<rparr>) = handleDelete supabase p \<and>
   (validateTableName (table p) = Inr () \<and> resolve_row JSON_parse p = Inr row \<longrightarrow>
      snd (handleUpdate JSON_parse supabase p) =
        [Rest \<lparr>from_table = table p, verb = Update_verb row,
               filter_calls = map filter_call_of (getNodeParameter (filters p) []),
               order_calls = [], limit_call = None, range_call = None, returning = True\<rparr>]) \<and>
   (uiMode p = Some ''advanced'' \<and> filters p = None \<and> validateTableName (table p) = Inr () \<and>
    JSON_parse (getNodeParameter (jsonData p) ''{}'') = Some row \<longrightarrow>
      snd (handleUpdate JSON_parse supabase p) =
        [Rest \<lparr>from_table = table p, verb = Update_verb row, filter_calls = [],
               order_calls = [], limit_call = None, range_call = None, returning = True\<rparr>]) \<and>
   (filters p = None \<and> validateTableName (table p) = Inr () \<longrightarrow>
      handleDelete supabase p =
        (Inl (JError ''At least one filter is required for delete operations to prevent accidental data loss''), []))"
proof -
  have 1: "handleUpdate JSON_parse supabase (p\<lparr>advancedFilters := a\<rparr>) = handleUpdate JSON_parse supabase p"
  proof -
    have "resolve_row JSON_parse (p\<lparr>advancedFilters := a\<rparr>) = resolve_row JSON_parse p"
      by (simp add: resolve_row_def)
    then show ?thesis
      by (simp add: handleUpdate_def Let_def split: sum.splits)
  qed
  have 2: "handleDelete supabase (p\<lparr>advancedFilters := a, uiMode := m\<rparr>) = handleDelete supabase p"
    by (simp add: handleDelete_def Let_def split: sum.splits)
  have 3: "resolve_row JSON_parse p = Inr row"
    if "uiMode p = Some ''advanced''" "JSON_parse (getNodeParameter (jsonData p) ''{}'') = Some row"
    using that by (simp add: resolve_row_def getNodeParameter_def)
  have 4: "handleDelete supabase p =
        (Inl (JError ''At least one filter is required for delete operations to prevent accidental data loss''), [])"
    if "filters p = None" "validateTableName (table p) = Inr ()"
    using that by (simp add: handleDelete_def getNodeParameter_def)
  show ?thesis
    using 1 2 3 4 handleUpdate_sends [of p JSON_parse row supabase]
    by (auto simp: getNodeParameter_def)
qed

theorem update_and_delete_ignore_advancedFilters_witness:
  "snd (handleUpdate [''{\"active\":false}'' \<mapsto> JObj [(''active'', JBool False)]]
          (answering \<lparr>data = JArr [], error = JNull, count = JNull\<rparr>)
          (blank_item\<lparr>table := ''users'', uiMode := Some ''advanced'',
             jsonData := Some ''{\"active\":false}'', advancedFilters := Some ''{\"id\":7}''\<rparr>)) =
     [Rest \<lparr>from_table = ''users'', verb = Update_verb (JObj [(''active'', JBool False)]), filter_calls = [],
            order_calls = [], limit_call = None, range_call = None, returning = True\<rparr>] \<and>
   handleDelete (answering \<lparr>data = JArr [], error = JNull, count = JNull\<rparr>)
     (blank_item\<lparr>table := ''users'', uiMode := Some ''advanced'', advancedFilters := Some ''{\"id\":7}''\<rparr>) =
     (Inl (JError ''At least one filter is required for delete operations to prevent accidental data loss''), [])"
  using update_and_delete_ignore_advancedFilters
     [where JSON_parse = "[''{\"active\":false}'' \<mapsto> JObj [(''active'', JBool False)]]"
        and supabase = "answering \<lparr>data = JArr [], error = JNull, count = JNull\<rparr>"
        and p = "blank_item\<lparr>table := ''users'', uiMode := Some ''advanced'',
             jsonData := Some ''{\"active\":false}'', advancedFilters := Some ''{\"id\":7}''\<rparr>"
        and row = "JObj [(''active'', JBool False)]"]
    update_and_delete_ignore_advancedFilters
     [where supabase = "answering \<lparr>data = JArr [], error = JNull, count = JNull\<rparr>"
        and p = "blank_item\<lparr>table := ''users'', uiMode := Some ''advanced'', advancedFilters := Some ''{\"id\":7}''\<rparr>"]
    users_is_a_table_name
  by (simp add: blank_item_def getNodeParameter_def)

section \<open>The records of a read\<close>

lemma handleRead_after_request:
  assumes "snd (handleRead JSON_parse supabase p) = [req]"
  shows "fst (handleRead JSON_parse supabase p) =
     (if truthy (error (supabase req)) then Inl (new_Error (formatSupabaseError (error (supabase req))))
      else if rows_of (data (supabase req)) = [] then
        Inr [Item (JObj [(''data'', JArr []), (''count'', js_or (count (supabase req)) (JNum 0)),
                         (''operation'', JStr ''read''), (''table'', JStr (table p)),
                         (''message'', JStr ''No records found'')])]
      else Inr (map Item (rows_of (data (supabase req)))))"
  using assms
  by (auto simp: handleRead_def Let_def split: sum.splits if_splits)

lemma handleRead_sends:
  assumes "validateTableName (table p) = Inr ()"
    and "getNodeParameter (uiMode p) ''simple'' = ''simple''"
  shows "\<exists>req. snd (handleRead JSON_parse supabase p) = [req]"
  using assms by (auto simp: handleRead_def read_filters_def Let_def split: sum.splits if_splits)

text \<open>
  C7. When a read has sent its request and the backend answers without error: an answer
  with no row (and no count, as the request asks for none) gives exactly one record, whose
  \<^verbatim>\<open>json\<close> is \<^verbatim>\<open>{data: [], count: 0, operation: "read", table, message: "No records found"}\<close>;
  an answer with \<open>n\<close> rows, \<open>n\<close> at least 1, gives exactly \<open>n\<close> records, the rows in the order of
  the answer.
\<close>

theorem read_returns_one_item_per_row:
  "snd (handleRead JSON_parse supabase p) = [req] \<and> \<not> truthy (error (supabase req)) \<longrightarrow>
     (rows_of (data (supabase req)) = [] \<and> \<not> truthy (count (supabase req)) \<longrightarrow>
        fst (handleRead JSON_parse supabase p) =
          Inr [Item (JObj [(''data'', JArr []), (''count'', JNum 0), (''operation'', JStr ''read''),
                           (''table'', JStr (table p)), (''message'', JStr ''No records found'')])]) \<and>
     (rows_of (data (supabase req)) \<noteq> [] \<longrightarrow>
        fst (handleRead JSON_parse supabase p) = Inr (map Item (rows_of (data (supabase req)))) \<and>
        (\<exists>returnData. fst (handleRead JSON_parse supabase p) = Inr returnData \<and>
           length returnData = length (rows_of (data (supabase req))) \<and>
           (\<forall>i < length returnData. json (returnData ! i) = rows_of (data (supabase req)) ! i)))"
  using handleRead_after_request [of JSON_parse supabase p req]
  by (auto simp: js_or_def)

theorem read_returns_one_item_per_row_witness:
  "fst (handleRead Map.empty (answering \<lparr>data = JArr [], error = JNull, count = JNull\<rparr>)
          (blank_item\<lparr>table := ''users''\<rparr>)) =
     Inr [Item (JObj [(''data'', JArr []), (''count'', JNum 0), (''operation'', JStr ''read''),
                      (''table'', JStr ''users''), (''message'', JStr ''No records found'')])] \<and>
   fst (handleRead Map.empty
          (answering \<lparr>data = JArr [JObj [(''id'', JNum 1)], JObj [(''id'', JNum 2)]], error = JNull, count = JNull\<rparr>)
          (blank_item\<lparr>table := ''users''\<rparr>)) =
     Inr [Item (JObj [(''id'', JNum 1)]), Item (JObj [(''id'', JNum 2)])]"
proof -
  let ?req = "Rest \<lparr>from_table = ''users'', verb = Select_verb ''*'', filter_calls = [], order_calls = [],
                     limit_call = None, range_call = None, returning = False\<rparr>"
  have sent: "snd (handleRead Map.empty (answering r) (blank_item\<lparr>table := ''users''\<rparr>)) = [?req]" for r
    by (simp add: handleRead_def users_is_a_table_name blank_item_def getNodeParameter_def read_filters_def
        from_table_do_def paginate_def Let_def)
  show ?thesis
    using read_returns_one_item_per_row
        [of Map.empty "answering \<lparr>data = JArr [], error = JNull, count = JNull\<rparr>"
            "blank_item\<lparr>table := ''users''\<rparr>" ?req]
      read_returns_one_item_per_row
        [of Map.empty
            "answering \<lparr>data = JArr [JObj [(''id'', JNum 1)], JObj [(''id'', JNum 2)]], error = JNull, count = JNull\<rparr>"
            "blank_item\<lparr>table := ''users''\<rparr>" ?req]
      sent
    by (simp add: answering_def blank_item_def)
qed

section \<open>Custom queries\<close>

text \<open>
  What the code's tests mean: the lower-cased text starts with \<^verbatim>\<open>select\<close> when its first
  six characters are those letters in either case, and the trimmed text is empty when every
  character is white space.
\<close>

lemma lower_char_is_letter:
  assumes l: "97 \<le> (of_char l :: nat)" "(of_char l :: nat) \<le> 122"
  shows "js_lower_char c = l \<longleftrightarrow> same_letter c l"
proof -
  have n: "(of_char c :: nat) < 256" by simp
  have eq: "c = l \<longleftrightarrow> (of_char c :: nat) = of_char l" by simp
  have up: "char_of ((of_char c :: nat) + 32) = l \<longleftrightarrow> (of_char c :: nat) + 32 = of_char l"
    if "(of_char c :: nat) \<le> 222"
  proof -
    have "char_of ((of_char c :: nat) + 32) = l \<longleftrightarrow> of_char (char_of ((of_char c :: nat) + 32) :: char) = (of_char l :: nat)"
      by (simp only: of_char_eq_iff)
    also have "\<dots> \<longleftrightarrow> ((of_char c :: nat) + 32) mod 256 = of_char l"
      by (simp only: of_char_of)
    also have "\<dots> \<longleftrightarrow> (of_char c :: nat) + 32 = of_char l"
      using that by simp
    finally show ?thesis .
  qed
  show ?thesis
    unfolding js_lower_char_def same_letter_def Let_def eq
    using l up by (auto simp del: of_char_eq_iff dest: of_char_eqI)
qed

lemma starts_with_select_iff:
  "js_startsWith (js_toLowerCase t) ''select'' \<longleftrightarrow> starts_with_select t"
proof -
  have 1: "map js_lower_char u = ''select'' \<longleftrightarrow> list_all2 same_letter u ''select''" for u
    by (simp add: map_eq_Cons_conv list_all2_Cons2 lower_char_is_letter)
  have 2: "6 \<le> length t" if "list_all2 same_letter (take 6 t) ''select''"
    using list_all2_lengthD [OF that] by simp
  have "length ''select'' = 6" by simp
  then have 3: "js_startsWith (js_toLowerCase t) ''select'' \<longleftrightarrow> map js_lower_char (take 6 t) = ''select''"
    by (simp only: js_startsWith_def js_toLowerCase_def take_map)
  show ?thesis
    unfolding starts_with_select_def 3 1 using 2 by blast
qed


lemma js_trim_empty_iff: "js_trim t = [] \<longleftrightarrow> list_all js_space t"
proof -
  have "dropWhile js_space (rev (dropWhile js_space t)) = [] \<longleftrightarrow> dropWhile js_space t = []"
  proof (cases "dropWhile js_space t = []")
    case True
    show ?thesis unfolding True by simp
  next
    case False
    then have "hd (dropWhile js_space t) \<in> set (rev (dropWhile js_space t))"
      by simp
    moreover from False have "\<not> js_space (hd (dropWhile js_space t))"
      by (simp add: hd_dropWhile)
    ultimately have "dropWhile js_space (rev (dropWhile js_space t)) \<noteq> []"
      unfolding dropWhile_eq_Nil_conv by blast
    with False show ?thesis by blast
  qed
  then show ?thesis
    by (simp add: js_trim_def dropWhile_eq_Nil_conv list_all_iff)
qed

text \<open>
  C8. A query that is absent or all white space throws \<^verbatim>\<open>SQL query is required\<close> and sends
  nothing. Any other query whose trimmed text starts with \<^verbatim>\<open>select\<close>, in any mix of cases,
  calls \<^verbatim>\<open>exec_sql_select\<close> with the text as given and, when the backend reports no error,
  returns one record per row, or one record saying that nothing was returned when there is
  no row. Every other query calls \<^verbatim>\<open>exec_sql\<close> and, without error, returns exactly one record
  \<^verbatim>\<open>{operation, sql, result, success: true}\<close>.
\<close>

theorem customQuery_routes_on_select:
  "((case customSql p of None \<Rightarrow> True | Some t \<Rightarrow> list_all js_space t) \<longrightarrow>
      handleCustomQuery supabase p = (Inl (JError ''SQL query is required''), [])) \<and>
   (customSql p = Some sql \<and> \<not> list_all js_space sql \<and> starts_with_select (js_trim sql) \<longrightarrow>
      snd (handleCustomQuery supabase p) = [Rpc ''exec_sql_select'' sql] \<and>
      (\<not> truthy (error (supabase (Rpc ''exec_sql_select'' sql))) \<longrightarrow>
         fst (handleCustomQuery supabase p) =
           Inr (if rows_of (data (supabase (Rpc ''exec_sql_select'' sql))) = []
                then [Item (JObj [(''data'', JArr []), (''operation'', JStr ''customQuery''), (''sql'', JStr sql),
                                  (''message'', JStr ''Query executed successfully, no results returned'')])]
                else map Item (rows_of (data (supabase (Rpc ''exec_sql_select'' sql))))))) \<and>
   (customSql p = Some sql \<and> \<not> list_all js_space sql \<and> \<not> starts_with_select (js_trim sql) \<longrightarrow>
      snd (handleCustomQuery supabase p) = [Rpc ''exec_sql'' sql] \<and>
      (\<not> truthy (error (supabase (Rpc ''exec_sql'' sql))) \<longrightarrow>
         fst (handleCustomQuery supabase p) =
           Inr [Item (JObj [(''operation'', JStr ''customQuery''), (''sql'', JStr sql),
                            (''result'', data (supabase (Rpc ''exec_sql'' sql))), (''success'', JBool True)])]))"
  by (auto simp: handleCustomQuery_def blank_sql_def rpc_then_def Let_def js_trim_empty_iff
      starts_with_select_iff split: option.splits)


theorem customQuery_routes_on_select_witness:
  "handleCustomQuery (answering \<lparr>data = JArr [JObj [(''n'', JNum 1)]], error = JNull, count = JNull\<rparr>)
     (blank_item\<lparr>customSql := Some ''   ''\<rparr>) = (Inl (JError ''SQL query is required''), []) \<and>
   handleCustomQuery (answering \<lparr>data = JArr [JObj [(''n'', JNum 1)]], error = JNull, count = JNull\<rparr>)
     (blank_item\<lparr>customSql := Some '' SeLeCt 1 AS n''\<rparr>) =
       (Inr [Item (JObj [(''n'', JNum 1)])], [Rpc ''exec_sql_select'' '' SeLeCt 1 AS n'']) \<and>
   handleCustomQuery (answering \<lparr>data = JNull, error = JNull, count = JNull\<rparr>)
     (blank_item\<lparr>customSql := Some ''VACUUM''\<rparr>) =
       (Inr [Item (JObj [(''operation'', JStr ''customQuery''), (''sql'', JStr ''VACUUM''),
                         (''result'', JNull), (''success'', JBool True)])], [Rpc ''exec_sql'' ''VACUUM''])"
proof -
  have t: "js_trim '' SeLeCt 1 AS n'' = ''SeLeCt 1 AS n''" "js_trim ''VACUUM'' = ''VACUUM''"
    by (simp_all add: js_trim_def js_space_def)
  show ?thesis
    using customQuery_routes_on_select
        [of "blank_item\<lparr>customSql := Some ''   ''\<rparr>"
            "answering \<lparr>data = JArr [JObj [(''n'', JNum 1)]], error = JNull, count = JNull\<rparr>"]
      customQuery_routes_on_select
        [of "blank_item\<lparr>customSql := Some '' SeLeCt 1 AS n''\<rparr>"
            "answering \<lparr>data = JArr [JObj [(''n'', JNum 1)]], error = JNull, count = JNull\<rparr>"
            "'' SeLeCt 1 AS n''"]
      customQuery_routes_on_select
        [of "blank_item\<lparr>customSql := Some ''VACUUM''\<rparr>"
            "answering \<lparr>data = JNull, error = JNull, count = JNull\<rparr>" "''VACUUM''"]
    by (simp add: t blank_item_def answering_def js_space_def starts_with_select_def same_letter_def
        prod_eq_iff)
qed

section \<open>The row of a create\<close>

lemma assign_fresh: "k \<notin> fst ` set kvs \<Longrightarrow> assign kvs k v = kvs @ [(k, v)]"
  by (induction kvs) auto

lemma columns_loop_distinct:
  "distinct (map fst (acc @ m)) \<Longrightarrow>
   \<forall>(k, v) \<in> set m. k \<noteq> [] \<and> k \<noteq> ''__proto__'' \<and> v \<noteq> JUndefined \<Longrightarrow>
   columns_loop acc m = acc @ m"
proof (induction m arbitrary: acc)
  case Nil
  then show ?case by simp
next
  case (Cons kv m)
  obtain k v where kv: "kv = (k, v)" by (cases kv)
  from Cons.prems kv have fresh: "k \<notin> fst ` set acc" and ok: "k \<noteq> []" "k \<noteq> ''__proto__''" "v \<noteq> JUndefined"
    by auto
  from Cons.prems kv have "distinct (map fst ((acc @ [(k, v)]) @ m))"
    "\<forall>(k, v) \<in> set m. k \<noteq> [] \<and> k \<noteq> ''__proto__'' \<and> v \<noteq> JUndefined"
    by auto
  from Cons.IH [OF this] show ?case
    using fresh ok by (simp add: kv set_property_def assign_fresh)
qed

text \<open>
  C6, as the code has it. Take a finite mapping as the list of its bindings: distinct
  names, none of them empty or \<^verbatim>\<open>__proto__\<close>, no value undefined. The simple mode,
  given the bindings as name and value pairs, and the advanced mode, given a JSON text that
  the parser reads as the object of these bindings, resolve to the same row object, and
  the create handler does the same in both modes: the same insert with that row, the same
  result. The simple mode skips a pair whose name is empty and a pair whose value is
  undefined.
\<close>

theorem create_modes_build_the_same_row:
  "(distinct (map fst m) \<and> (\<forall>(k, v) \<in> set m. k \<noteq> [] \<and> k \<noteq> ''__proto__'' \<and> v \<noteq> JUndefined) \<and>
   JSON_parse t = Some (JObj m) \<longrightarrow>
     resolve_row JSON_parse (p\<lparr>uiMode := Some ''simple'', columns := Some m\<rparr>) = Inr (JObj m) \<and>
     resolve_row JSON_parse (p\<lparr>uiMode := Some ''advanced'', jsonData := Some t\<rparr>) = Inr (JObj m) \<and>
     handleCreate JSON_parse supabase (p\<lparr>uiMode := Some ''simple'', columns := Some m\<rparr>) =
       handleCreate JSON_parse supabase (p\<lparr>uiMode := Some ''advanced'', jsonData := Some t\<rparr>) \<and>
     (validateTableName (table p) = Inr () \<longrightarrow>
        snd (handleCreate JSON_parse supabase (p\<lparr>uiMode := Some ''simple'', columns := Some m\<rparr>)) =
          [Rest \<lparr>from_table = table p, verb = Insert_verb (JObj m), filter_calls = [], order_calls = [],
                 limit_call = None, range_call = None, returning = True\<rparr>])) \<and>
   columns_loop dataObject (([], v) # rest) = columns_loop dataObject rest \<and>
   columns_loop dataObject ((n, JUndefined) # rest) = columns_loop dataObject rest"
  (is "?same_row \<and> ?empty_name \<and> ?undefined_value")
proof -
  have ?same_row
  proof (intro impI, elim conjE)
  assume m: "distinct (map fst m)" "\<forall>(k, v) \<in> set m. k \<noteq> [] \<and> k \<noteq> ''__proto__'' \<and> v \<noteq> JUndefined"
    and parse: "JSON_parse t = Some (JObj m)"
  have loop: "columns_loop [] m = m"
    using columns_loop_distinct [of "[]" m] m by simp
  have simple: "resolve_row JSON_parse (p\<lparr>uiMode := Some ''simple'', columns := Some m\<rparr>) = Inr (JObj m)"
    by (simp add: resolve_row_def getNodeParameter_def loop)
  have advanced: "resolve_row JSON_parse (p\<lparr>uiMode := Some ''advanced'', jsonData := Some t\<rparr>) = Inr (JObj m)"
    by (simp add: resolve_row_def getNodeParameter_def parse)
  have same: "handleCreate JSON_parse supabase (p\<lparr>uiMode := Some ''simple'', columns := Some m\<rparr>) =
       handleCreate JSON_parse supabase (p\<lparr>uiMode := Some ''advanced'', jsonData := Some t\<rparr>)"
    by (simp add: handleCreate_def simple advanced Let_def split: sum.splits)
  have sent: "snd (handleCreate JSON_parse supabase (p\<lparr>uiMode := Some ''simple'', columns := Some m\<rparr>)) =
          [Rest \<lparr>from_table = table p, verb = Insert_verb (JObj m), filter_calls = [], order_calls = [],
                 limit_call = None, range_call = None, returning = True\<rparr>]"
    if "validateTableName (table p) = Inr ()"
    using that by (simp add: handleCreate_def simple Let_def query_select_def from_table_do_def)
  show "resolve_row JSON_parse (p\<lparr>uiMode := Some ''simple'', columns := Some m\<rparr>) = Inr (JObj m) \<and>
     resolve_row JSON_parse (p\<lparr>uiMode := Some ''advanced'', jsonData := Some t\<rparr>) = Inr (JObj m) \<and>
     handleCreate JSON_parse supabase (p\<lparr>uiMode := Some ''simple'', columns := Some m\<rparr>) =
       handleCreate JSON_parse supabase (p\<lparr>uiMode := Some ''advanced'', jsonData := Some t\<rparr>) \<and>
     (validateTableName (table p) = Inr () \<longrightarrow>
        snd (handleCreate JSON_parse supabase (p\<lparr>uiMode := Some ''simple'', columns := Some m\<rparr>)) =
          [Rest \<lparr>from_table = table p, verb = Insert_verb (JObj m), filter_calls = [], order_calls = [],
                 limit_call = None, range_call = None, returning = True\<rparr>])"
    using simple advanced same sent by blast
  qed
  moreover have ?empty_name by simp
  moreover have ?undefined_value by simp
  ultimately show ?thesis by blast
qed

theorem create_modes_build_the_same_row_witness:
  "json_text (JObj [(''x'', JStr ''y'')]) = ''{\"x\":\"y\"}'' \<and>
   handleCreate [''{\"x\":\"y\"}'' \<mapsto> JObj [(''x'', JStr ''y'')]]
       (answering \<lparr>data = JArr [JObj [(''x'', JStr ''y'')]], error = JNull, count = JNull\<rparr>)
       (blank_item\<lparr>table := ''users'', uiMode := Some ''simple'', columns := Some [(''x'', JStr ''y'')]\<rparr>) =
     handleCreate [''{\"x\":\"y\"}'' \<mapsto> JObj [(''x'', JStr ''y'')]]
       (answering \<lparr>data = JArr [JObj [(''x'', JStr ''y'')]], error = JNull, count = JNull\<rparr>)
       (blank_item\<lparr>table := ''users'', uiMode := Some ''advanced'', jsonData := Some ''{\"x\":\"y\"}''\<rparr>) \<and>
   snd (handleCreate [''{\"x\":\"y\"}'' \<mapsto> JObj [(''x'', JStr ''y'')]]
       (answering \<lparr>data = JArr [JObj [(''x'', JStr ''y'')]], error = JNull, count = JNull\<rparr>)
       (blank_item\<lparr>table := ''users'', uiMode := Some ''simple'', columns := Some [(''x'', JStr ''y'')]\<rparr>)) =
     [Rest \<lparr>from_table = ''users'', verb = Insert_verb (JObj [(''x'', JStr ''y'')]), filter_calls = [],
            order_calls = [], limit_call = None, range_call = None, returning = True\<rparr>]"
proof -
  have jt: "json_text (JObj [(''x'', JStr ''y'')]) = ''{\"x\":\"y\"}''"
    by (simp add: json_quote_def json_escape_char_def)
  have hyp: "distinct (map fst [(''x'', JStr ''y'')]) \<and>
     (\<forall>(k, v) \<in> set [(''x'', JStr ''y'')]. k \<noteq> [] \<and> k \<noteq> ''__proto__'' \<and> v \<noteq> JUndefined) \<and>
     [''{\"x\":\"y\"}'' \<mapsto> JObj [(''x'', JStr ''y'')]] ''{\"x\":\"y\"}'' = Some (JObj [(''x'', JStr ''y'')])"
    by simp
  have sel: "table (blank_item\<lparr>table := ''users''\<rparr>) = ''users''"
    by simp
  show ?thesis
    using create_modes_build_the_same_row
      [where m = "[(''x'', JStr ''y'')]" and t = "''{\"x\":\"y\"}''"
         and JSON_parse = "[''{\"x\":\"y\"}'' \<mapsto> JObj [(''x'', JStr ''y'')]]"
         and p = "blank_item\<lparr>table := ''users''\<rparr>"
         and supabase = "answering \<lparr>data = JArr [JObj [(''x'', JStr ''y'')]], error = JNull, count = JNull\<rparr>",
       unfolded sel]
      hyp users_is_a_table_name jt
    by blast
qed

text \<open>
  C6 as stated fails: the simple mode skips a pair whose name is empty, and an assignment
  to \<^verbatim>\<open>__proto__\<close> creates no property, while the parser keeps both keys. For the mapping
  with the one key \<^verbatim>\<open>""\<close> the simple mode inserts \<^verbatim>\<open>{}\<close> and the advanced mode inserts
  \<^verbatim>\<open>{"": "y"}\<close>.
\<close>

theorem create_modes_differ_counterexample:
  "json_text (JObj [('''', JStr ''y'')]) = ''{\"\":\"y\"}'' \<and>
   snd (handleCreate [''{\"\":\"y\"}'' \<mapsto> JObj [('''', JStr ''y'')]]
       (answering \<lparr>data = JArr [], error = JNull, count = JNull\<rparr>)
       (blank_item\<lparr>table := ''users'', uiMode := Some ''advanced'', jsonData := Some ''{\"\":\"y\"}''\<rparr>)) =
     [Rest \<lparr>from_table = ''users'', verb = Insert_verb (JObj [('''', JStr ''y'')]), filter_calls = [],
            order_calls = [], limit_call = None, range_call = None, returning = True\<rparr>] \<and>
   snd (handleCreate [''{\"\":\"y\"}'' \<mapsto> JObj [('''', JStr ''y'')]]
       (answering \<lparr>data = JArr [], error = JNull, count = JNull\<rparr>)
       (blank_item\<lparr>table := ''users'', uiMode := Some ''simple'', columns := Some [('''', JStr ''y'')]\<rparr>)) =
     [Rest \<lparr>from_table = ''users'', verb = Insert_verb (JObj []), filter_calls = [],
            order_calls = [], limit_call = None, range_call = None, returning = True\<rparr>] \<and>
   resolve_row [''{\"__proto__\":\"y\"}'' \<mapsto> JObj [(''__proto__'', JStr ''y'')]]
       (blank_item\<lparr>uiMode := Some ''advanced'', jsonData := Some ''{\"__proto__\":\"y\"}''\<rparr>) =
     Inr (JObj [(''__proto__'', JStr ''y'')]) \<and>
   resolve_row [''{\"__proto__\":\"y\"}'' \<mapsto> JObj [(''__proto__'', JStr ''y'')]]
       (blank_item\<lparr>uiMode := Some ''simple'', columns := Some [(''__proto__'', JStr ''y'')]\<rparr>) =
     Inr (JObj [])"
  by (simp add: handleCreate_def users_is_a_table_name resolve_row_def getNodeParameter_def blank_item_def
      set_property_def Let_def query_select_def from_table_do_def answering_def json_quote_def
      json_escape_char_def)

section \<open>The batch loop\<close>

lemma upt_0_Suc_map: "map g [0..<Suc n] = g 0 # map (\<lambda>j. g (Suc j)) [0..<n]"
proof -
  have "[0..<Suc n] = 0 # map Suc [0..<n]"
    by (simp only: map_Suc_upt upt_conv_Cons [of 0 "Suc n"] zero_less_Suc)
  then show ?thesis by (simp add: comp_def)
qed

lemma items_loop_continue:
  assumes "\<forall>j<length items. fst (run_item JSON_parse supabase storage (i + j) (items ! j)) =
             (if i + j = k then Inl e else Inr [r (i + j)])"
  shows "fst (items_loop JSON_parse supabase storage True i items acc sent) =
     Inr (acc @ map (\<lambda>j. if j = k
                          then Item (JObj [(''error'', JStr (message_or e ''Unknown error occurred'')),
                                           (''itemIndex'', JNum (int k))])
                          else r j) [i..<i + length items])"
  using assms
proof (induction items arbitrary: i acc sent)
  case Nil
  then show ?case by simp
next
  case (Cons p ps)
  obtain res calls where run: "run_item JSON_parse supabase storage i p = (res, calls)"
    by (cases "run_item JSON_parse supabase storage i p")
  from Cons.prems [rule_format, of 0] run
  have res: "res = (if i = k then Inl e else Inr [r i])" by simp
  have rest: "\<forall>j<length ps. fst (run_item JSON_parse supabase storage (Suc i + j) (ps ! j)) =
             (if Suc i + j = k then Inl e else Inr [r (Suc i + j)])"
    using Cons.prems by (auto dest: spec [of _ "Suc j" for j])
  have range: "[i..<i + length (p # ps)] = i # [Suc i..<Suc i + length ps]"
    using upt_conv_Cons [of i "i + length (p # ps)"] by (simp del: upt_Suc)
  show ?case
  proof (cases "i = k")
    case True
    from run res True have run_k: "run_item JSON_parse supabase storage k p = (Inl e, calls)"
      by simp
    show ?thesis
      unfolding range
      using Cons.IH [OF rest, of "acc @ [Item (JObj [(''error'', JStr (message_or e ''Unknown error occurred'')),
                                                     (''itemIndex'', JNum (int k))])]" "sent @ calls"]
      by (simp add: run_k True del: upt_Suc)
  next
    case False
    show ?thesis
      unfolding range
      using Cons.IH [OF rest, of "acc @ [r i]" "sent @ calls"]
      by (simp add: run res False del: upt_Suc)
  qed
qed

lemma items_loop_abort:
  assumes "i \<le> k" "k - i < length items"
    and "fst (run_item JSON_parse supabase storage k (items ! (k - i))) = Inl e"
    and "\<forall>j<k - i. \<exists>rs. fst (run_item JSON_parse supabase storage (i + j) (items ! j)) = Inr rs"
  shows "items_loop JSON_parse supabase storage False i items acc sent =
     (Inl (NodeOperationError (message_or e ''Unknown error occurred'') (Some k)),
      sent @ concat (map (\<lambda>j. snd (run_item JSON_parse supabase storage (i + j) (items ! j))) [0..<Suc (k - i)]))"
  using assms
proof (induction items arbitrary: i acc sent)
  case Nil
  then show ?case by simp
next
  case (Cons p ps)
  obtain res calls where run: "run_item JSON_parse supabase storage i p = (res, calls)"
    by (cases "run_item JSON_parse supabase storage i p")
  show ?case
  proof (cases "i = k")
    case True
    with Cons.prems run have "run_item JSON_parse supabase storage k p = (Inl e, calls)" by simp
    with True show ?thesis by simp
  next
    case False
    with Cons.prems have lt: "i < k" by simp
    with Cons.prems(4) [rule_format, of 0] run obtain rs where res: "res = Inr rs" by auto
    have 1: "Suc i \<le> k" "k - Suc i < length ps" using lt Cons.prems by auto
    have 2: "fst (run_item JSON_parse supabase storage k (ps ! (k - Suc i))) = Inl e"
      using Cons.prems(3) lt by (simp add: nth_Cons')
    have 3: "\<forall>j<k - Suc i. \<exists>rs. fst (run_item JSON_parse supabase storage (Suc i + j) (ps ! j)) = Inr rs"
    proof (intro allI impI)
      fix j assume "j < k - Suc i"
      then have "Suc j < k - i" by simp
      from Cons.prems(4) [rule_format, OF this] show "\<exists>rs. fst (run_item JSON_parse supabase storage (Suc i + j) (ps ! j)) = Inr rs"
        by simp
    qed
    have k: "k - i = Suc (k - Suc i)" using lt by simp
    show ?thesis
      unfolding k upt_0_Suc_map [of _ "Suc (k - Suc i)"]
      using Cons.IH [OF 1 2 3, of "acc @ rs" "sent @ calls"]
      by (simp add: run res del: upt_Suc)
  qed
qed

text \<open>
  C3. Take a batch in which the item at index \<open>k\<close> throws \<open>e\<close> and every other item \<open>j\<close>
  returns the one record \<open>r j\<close>. With continue-on-failure the loop returns one record per
  item, in input order: the record \<^verbatim>\<open>{error: message, itemIndex: k}\<close> at index \<open>k\<close>, where the
  message is the thrown error's, and \<open>r j\<close> unchanged everywhere else. Without it the loop
  throws at item \<open>k\<close> with that message: no record is returned, and the only requests sent
  are those of the items up to \<open>k\<close>, so no later item is run.
\<close>

theorem batch_continue_on_failure:
  "k < length items \<and> fst (run_item JSON_parse supabase storage k (items ! k)) = Inl e \<and>
   (\<forall>j<length items. j \<noteq> k \<longrightarrow> fst (run_item JSON_parse supabase storage j (items ! j)) = Inr [r j]) \<longrightarrow>
     fst (items_loop JSON_parse supabase storage True 0 items [] []) =
       Inr (map (\<lambda>j. if j = k
                      then Item (JObj [(''error'', JStr (message_or e ''Unknown error occurred'')),
                                       (''itemIndex'', JNum (int k))])
                      else r j) [0..<length items]) \<and>
     items_loop JSON_parse supabase storage False 0 items [] [] =
       (Inl (NodeOperationError (message_or e ''Unknown error occurred'') (Some k)),
        concat (map (\<lambda>j. snd (run_item JSON_parse supabase storage j (items ! j))) [0..<Suc k]))"
proof (intro impI, elim conjE)
  assume k: "k < length items"
    and thrown: "fst (run_item JSON_parse supabase storage k (items ! k)) = Inl e"
    and others: "\<forall>j<length items. j \<noteq> k \<longrightarrow> fst (run_item JSON_parse supabase storage j (items ! j)) = Inr [r j]"
  have "\<forall>j<length items. fst (run_item JSON_parse supabase storage (0 + j) (items ! j)) =
             (if 0 + j = k then Inl e else Inr [r (0 + j)])"
    using thrown others by simp
  from items_loop_continue [OF this]
  have 1: "fst (items_loop JSON_parse supabase storage True 0 items [] []) =
       Inr (map (\<lambda>j. if j = k
                      then Item (JObj [(''error'', JStr (message_or e ''Unknown error occurred'')),
                                       (''itemIndex'', JNum (int k))])
                      else r j) [0..<length items])"
    by simp
  have "\<forall>j<k - 0. \<exists>rs. fst (run_item JSON_parse supabase storage (0 + j) (items ! j)) = Inr rs"
    using others k by simp
  from items_loop_abort [of 0 k items, OF _ _ _ this] k thrown
  have 2: "items_loop JSON_parse supabase storage False 0 items [] [] =
       (Inl (NodeOperationError (message_or e ''Unknown error occurred'') (Some k)),
        concat (map (\<lambda>j. snd (run_item JSON_parse supabase storage j (items ! j))) [0..<Suc k]))"
    by simp
  from 1 2 show "fst (items_loop JSON_parse supabase storage True 0 items [] []) =
       Inr (map (\<lambda>j. if j = k
                      then Item (JObj [(''error'', JStr (message_or e ''Unknown error occurred'')),
                                       (''itemIndex'', JNum (int k))])
                      else r j) [0..<length items]) \<and>
     items_loop JSON_parse supabase storage False 0 items [] [] =
       (Inl (NodeOperationError (message_or e ''Unknown error occurred'') (Some k)),
        concat (map (\<lambda>j. snd (run_item JSON_parse supabase storage j (items ! j))) [0..<Suc k]))"
    by blast
qed


text \<open>A batch of three items whose second is a delete without filter.\<close>

lemma batch_item_0:
  "run_item Map.empty (answering \<lparr>data = JArr [JObj [(''n'', JNum 1)]], error = JNull, count = JNull\<rparr>) no_storage 0
     (blank_item\<lparr>operation := ''customQuery'', customSql := Some ''select 1''\<rparr>) =
   (Inr [Item (JObj [(''n'', JNum 1)])], [Rpc ''exec_sql_select'' ''select 1''])"
  by (simp add: run_item_def executeDatabaseOperation_def handleCustomQuery_def blank_item_def blank_sql_def
      js_trim_def js_space_def js_startsWith_def js_toLowerCase_def js_lower_char_def rpc_then_def
      answering_def Let_def)

lemma batch_item_1:
  "run_item Map.empty (answering \<lparr>data = JArr [JObj [(''n'', JNum 1)]], error = JNull, count = JNull\<rparr>) no_storage 1
     (blank_item\<lparr>operation := ''delete'', table := ''users''\<rparr>) =
   (Inl (JError ''Database operation failed: At least one filter is required for delete operations to prevent accidental data loss''), [])"
  by (simp add: run_item_def executeDatabaseOperation_def handleDelete_def blank_item_def
      users_is_a_table_name getNodeParameter_def formatSupabaseError_def)

lemma batch_item_2:
  "run_item Map.empty (answering \<lparr>data = JArr [JObj [(''n'', JNum 1)]], error = JNull, count = JNull\<rparr>) no_storage 2
     (blank_item\<lparr>operation := ''dropIndex'', indexName := ''idx''\<rparr>) =
   (Inr [Item (JObj [(''operation'', JStr ''dropIndex''), (''indexName'', JStr ''idx''),
                     (''sql'', JStr ''DROP INDEX \"idx\"''), (''success'', JBool True)])],
    [Rpc ''exec_sql'' ''DROP INDEX \"idx\"''])"
  by (simp add: run_item_def executeDatabaseOperation_def handleDropIndex_def blank_item_def
      getNodeParameter_def rpc_then_def answering_def double_quoted_def Let_def)

theorem batch_continue_on_failure_witness:
  "fst (items_loop Map.empty (answering \<lparr>data = JArr [JObj [(''n'', JNum 1)]], error = JNull, count = JNull\<rparr>)
          no_storage True 0
          [blank_item\<lparr>operation := ''customQuery'', customSql := Some ''select 1''\<rparr>,
           blank_item\<lparr>operation := ''delete'', table := ''users''\<rparr>,
           blank_item\<lparr>operation := ''dropIndex'', indexName := ''idx''\<rparr>] [] []) =
     Inr [Item (JObj [(''n'', JNum 1)]),
          Item (JObj [(''error'', JStr ''Database operation failed: At least one filter is required for delete operations to prevent accidental data loss''),
                      (''itemIndex'', JNum 1)]),
          Item (JObj [(''operation'', JStr ''dropIndex''), (''indexName'', JStr ''idx''),
                      (''sql'', JStr ''DROP INDEX \"idx\"''), (''success'', JBool True)])] \<and>
   items_loop Map.empty (answering \<lparr>data = JArr [JObj [(''n'', JNum 1)]], error = JNull, count = JNull\<rparr>)
          no_storage False 0
          [blank_item\<lparr>operation := ''customQuery'', customSql := Some ''select 1''\<rparr>,
           blank_item\<lparr>operation := ''delete'', table := ''users''\<rparr>,
           blank_item\<lparr>operation := ''dropIndex'', indexName := ''idx''\<rparr>] [] [] =
     (Inl (NodeOperationError ''Database operation failed: At least one filter is required for delete operations to prevent accidental data loss'' (Some 1)),
      [Rpc ''exec_sql_select'' ''select 1''])"
proof -
  let ?items = "[blank_item\<lparr>operation := ''customQuery'', customSql := Some ''select 1''\<rparr>,
           blank_item\<lparr>operation := ''delete'', table := ''users''\<rparr>,
           blank_item\<lparr>operation := ''dropIndex'', indexName := ''idx''\<rparr>]"
  let ?r = "\<lambda>j::nat. if j = 0 then Item (JObj [(''n'', JNum 1)])
              else Item (JObj [(''operation'', JStr ''dropIndex''), (''indexName'', JStr ''idx''),
                      (''sql'', JStr ''DROP INDEX \"idx\"''), (''success'', JBool True)])"
  have range: "[0..<length ?items] = [0, 1, 2]" "[0..<Suc 1] = [0, 1]"
    by (simp_all add: upt_rec)
  have others: "\<forall>j<length ?items. j \<noteq> 1 \<longrightarrow>
        fst (run_item Map.empty (answering \<lparr>data = JArr [JObj [(''n'', JNum 1)]], error = JNull, count = JNull\<rparr>)
               no_storage j (?items ! j)) = Inr [?r j]"
  proof (intro allI impI)
    fix j :: nat
    assume "j < length ?items" "j \<noteq> 1"
    then consider "j = 0" | "j = 2" by fastforce
    then show "fst (run_item Map.empty (answering \<lparr>data = JArr [JObj [(''n'', JNum 1)]], error = JNull, count = JNull\<rparr>)
               no_storage j (?items ! j)) = Inr [?r j]"
    proof cases
      case 1
      then show ?thesis by (simp add: batch_item_0)
    next
      case 2
      then show ?thesis by (simp add: batch_item_2)
    qed
  qed
  have thrown: "fst (run_item Map.empty (answering \<lparr>data = JArr [JObj [(''n'', JNum 1)]], error = JNull, count = JNull\<rparr>)
            no_storage 1 (?items ! 1)) =
       Inl (JError ''Database operation failed: At least one filter is required for delete operations to prevent accidental data loss'')"
    using batch_item_1 by simp
  have hyp: "1 < length ?items \<and>
     fst (run_item Map.empty (answering \<lparr>data = JArr [JObj [(''n'', JNum 1)]], error = JNull, count = JNull\<rparr>)
            no_storage 1 (?items ! 1)) =
       Inl (JError ''Database operation failed: At least one filter is required for delete operations to prevent accidental data loss'') \<and>
     (\<forall>j<length ?items. j \<noteq> 1 \<longrightarrow>
        fst (run_item Map.empty (answering \<lparr>data = JArr [JObj [(''n'', JNum 1)]], error = JNull, count = JNull\<rparr>)
               no_storage j (?items ! j)) = Inr [?r j])"
    using others thrown by simp
  from batch_continue_on_failure [where r = ?r, THEN mp, OF hyp] batch_item_0 batch_item_1
  show ?thesis
    unfolding range by (simp del: items_loop.simps)
qed

section \<open>Identifiers in the synthesized SQL\<close>

text \<open>
  Where the handlers do validate: a schema handler that sends a request has validated the
  table name, and createTable, addColumn and dropColumn have validated every column name.
  The create-table loop writes one definition per column, in order.
\<close>

lemma column_defs_loop_validates:
  "column_defs_loop acc cs = Inr ds \<Longrightarrow> \<forall>c \<in> set cs. validateColumnName (name c) = Inr ()"
  by (induction cs arbitrary: acc) (auto split: sum.splits)

lemma column_defs_loop_result:
  "column_defs_loop acc cs = Inr ds \<Longrightarrow> ds = acc @ map column_def cs"
  by (induction cs arbitrary: acc) (fastforce split: sum.splits)+

lemma validated_schema_handlers:
  "snd (handleCreateTable supabase p) \<noteq> [] \<Longrightarrow>
     validateTableName (tableName p) = Inr () \<and>
     (\<forall>c \<in> set (getNodeParameter (columnDefinitions p) []). validateColumnName (name c) = Inr ())"
  "snd (handleDropTable supabase p) \<noteq> [] \<Longrightarrow> validateTableName (tableName p) = Inr ()"
  "snd (handleAddColumn supabase p) \<noteq> [] \<Longrightarrow>
     validateTableName (tableName p) = Inr () \<and> validateColumnName (name (columnDefinition p)) = Inr ()"
  "snd (handleDropColumn supabase p) \<noteq> [] \<Longrightarrow>
     validateTableName (tableName p) = Inr () \<and> validateColumnName (columnName p) = Inr ()"
  "snd (handleCreateIndex supabase p) \<noteq> [] \<Longrightarrow> validateTableName (tableName p) = Inr ()"
  by (auto simp: handleCreateTable_def handleDropTable_def handleAddColumn_def handleDropColumn_def
      handleCreateIndex_def Let_def dest: column_defs_loop_validates split: sum.splits if_splits)

text \<open>
  C2, at the inputs where the code leaves it. The index handlers interpolate the index
  name and the index columns without validating them: a name that both validators refuse
  (it holds a double quote, a semicolon and spaces) is written between double quotes into
  the text sent to \<^verbatim>\<open>exec_sql\<close>, where the quote it contains closes the identifier and a
  second statement follows. dropIndex only checks that the name is not empty; createIndex
  validates the table name only.
\<close>

theorem index_identifiers_reach_sql_unvalidated:
  "validateTableName ''x\"; DROP TABLE users; --'' =
     Inl (JError ''Table name must start with a letter and contain only letters, numbers, and underscores'') \<and>
   validateColumnName ''email\"); DROP TABLE users; --'' =
     Inl (JError ''Column name must start with a letter and contain only letters, numbers, and underscores'') \<and>
   handleDropIndex (answering \<lparr>data = JNull, error = JNull, count = JNull\<rparr>)
       (blank_item\<lparr>indexName := ''x\"; DROP TABLE users; --''\<rparr>) =
     (Inr [Item (JObj [(''operation'', JStr ''dropIndex''), (''indexName'', JStr ''x\"; DROP TABLE users; --''),
                       (''sql'', JStr ''DROP INDEX \"x\"; DROP TABLE users; --\"''), (''success'', JBool True)])],
      [Rpc ''exec_sql'' ''DROP INDEX \"x\"; DROP TABLE users; --\"'']) \<and>
   snd (handleCreateIndex (answering \<lparr>data = JNull, error = JNull, count = JNull\<rparr>)
          (blank_item\<lparr>tableName := ''users'',
             indexDefinition := \<lparr>index_name = ''idx'', index_columns = [''email\"); DROP TABLE users; --''],
                                  index_unique = None, index_method = None\<rparr>\<rparr>)) =
     [Rpc ''exec_sql'' ''CREATE INDEX \"idx\" ON \"users\" (\"email\"); DROP TABLE users; --\")'']"
proof -
  have users: "validateTableName ''users'' = Inr ()"
    by (simp add: validateTableName_def regex_test_identifier ascii_letter_def word_char_def)
  show ?thesis
    by (simp add: users handleDropIndex_def handleCreateIndex_def blank_item_def getNodeParameter_def
        rpc_then_def answering_def double_quoted_def flag_set_def text_set_def Let_def
        validateTableName_def validateColumnName_def regex_test_identifier ascii_letter_def word_char_def)
qed

end
